theory Spec2Isabelle
  imports Main
begin

section \<open>Values, errors and effects\<close>

text \<open>
  The two source files are \<^verbatim>\<open>server.js\<close> (the express application) and \<^verbatim>\<open>nft.js\<close> (the
  ledger helpers). A JavaScript string is represented by its UTF-8 encoding, a list of
  bytes, so that \<^verbatim>\<open>Buffer.from(s).length\<close> is \<open>length s\<close>. A value that may be absent
  (\<^verbatim>\<open>undefined\<close>, a missing request field, an unset environment variable, a missing header)
  is a \<open>string option\<close>.

  A thrown exception or a rejected promise is the \<open>Inl\<close> branch of a sum; \<^verbatim>\<open>await\<close> is
  sequencing, since every handler awaits each call before the next statement. Calls to the
  outside world (pinning provider, ledger, console, record file) are recorded in a trace of
  events, in the order the code makes them. Of the console output, the trace keeps the
  warning of \<^verbatim>\<open>uploadToPinata\<close> and the error of \<^verbatim>\<open>markHiveAsSold\<close>; the other
  \<^verbatim>\<open>console.log\<close> and \<^verbatim>\<open>console.error\<close> lines have no effect on a response or on the store.
\<close>

datatype error = Error string | TypeError string

fun message :: "error \<Rightarrow> string" where
  "message (Error m) = m"
| "message (TypeError m) = m"

text \<open>\<^verbatim>\<open>!v\<close> on a value that is a string or absent: absent and the empty string are falsy.\<close>

fun falsy :: "string option \<Rightarrow> bool" where
  "falsy None = True"
| "falsy (Some s) = (s = [])"

text \<open>\<^verbatim>\<open>v || d\<close>.\<close>

fun or_default :: "string option \<Rightarrow> string \<Rightarrow> string" where
  "or_default None d = d"
| "or_default (Some s) d = (if s = [] then d else s)"

text \<open>Decimal rendering of a non-negative integer, as \<^verbatim>\<open>toString()\<close> and template literals give.\<close>

fun string_of_nat :: "nat \<Rightarrow> string" where
  "string_of_nat n =
     (if n < 10 then [''0123456789'' ! n]
      else string_of_nat (n div 10) @ [''0123456789'' ! (n mod 10)])"

declare string_of_nat.simps [simp del]

section \<open>Data model\<close>

record attribute =
  trait_type :: string
  attr_value :: string

record metadata =
  md_name :: string
  md_description :: string
  md_image :: string
  attributes :: "attribute list"

text \<open>
  A record of \<^verbatim>\<open>data/hives.json\<close>. The status is the string of the file: the code compares it
  with \<^verbatim>\<open>'sold'\<close> only. The fields \<^verbatim>\<open>owner\<close>, \<^verbatim>\<open>serialNumber\<close> and \<^verbatim>\<open>soldAt\<close> are absent
  until the record is marked sold.
\<close>

record hive =
  hive_id :: string
  hive_name :: string
  hive_description :: string
  hive_image :: string
  hive_location :: string
  hive_farmer :: string
  hive_price :: nat
  hive_status :: string
  hive_owner :: "string option"
  hive_serialNumber :: "string option"
  hive_soldAt :: "string option"

datatype event =
    PinataFetch metadata
  | ConsoleWarn string
  | ConsoleError string
  | TokenCreateExecute string string
  | TokenMintExecute string string string
  | TransferExecute string nat string string string
  | MarkHiveAsSoldCall "string option" string string

text \<open>
  \<^item> \<open>PinataFetch md\<close>: the POST of \<open>md\<close> to the pinning provider;
  \<^item> \<open>TokenCreateExecute supplyKey adminKey\<close>: a collection-creation transaction submitted;
  \<^item> \<open>TokenMintExecute tokenId supplyKey bytes\<close>: a mint transaction submitted;
  \<^item> \<open>TransferExecute tokenId serial from to key\<close>: a transfer transaction submitted;
  \<^item> \<open>MarkHiveAsSoldCall hiveId buyer serial\<close>: a call of \<^verbatim>\<open>markHiveAsSold\<close>.
\<close>

section \<open>Metadata publisher: \<^verbatim>\<open>uploadToPinata\<close>\<close>

text \<open>
  What the pinning provider does with the one request of a call: \<^verbatim>\<open>fetch\<close> rejects, or
  \<^verbatim>\<open>response.json()\<close> rejects, or the body is the JSON value \<^verbatim>\<open>null\<close>, or it is a JSON value
  whose property \<^verbatim>\<open>IpfsHash\<close> is the given one (\<open>None\<close> when the value has no such property).
\<close>

datatype pinata_reply =
    FetchRejects error
  | BodyNotJson error
  | JsonNull
  | JsonData "string option"

definition fallback_warning :: string where
  "fallback_warning =
     ''Pinata failed '' @ [CHR 0xE2, CHR 0x86, CHR 0x92] @ '' using fallback metadata''"

text \<open>
  The body of the \<^verbatim>\<open>try\<close> block. The argument of \<^verbatim>\<open>fetch\<close> reads
  \<^verbatim>\<open>metadata.attributes[0].value\<close> first, which throws on an empty attribute list before any
  request is sent.
\<close>

fun uploadToPinata_try :: "pinata_reply \<Rightarrow> metadata \<Rightarrow> (error + string) \<times> event list" where
  "uploadToPinata_try reply metadata =
     (case attributes metadata of
        [] \<Rightarrow> (Inl (TypeError ''Cannot read properties of undefined (reading value)''), [])
      | a0 # _ \<Rightarrow>
          (case reply of
             FetchRejects e \<Rightarrow> (Inl e, [PinataFetch metadata])
           | BodyNotJson e \<Rightarrow> (Inl e, [PinataFetch metadata])
           | JsonNull \<Rightarrow>
               (Inl (TypeError ''Cannot read properties of null (reading IpfsHash)''),
                [PinataFetch metadata])
           | JsonData h \<Rightarrow>
               (if falsy h then (Inl (Error ''Pinata failed''), [PinataFetch metadata])
                else (Inr (''ipfs://'' @ or_default h []), [PinataFetch metadata]))))"

text \<open>\<^verbatim>\<open>metadata.attributes.find(a => a.trait_type === "Hive ID")\<close>.\<close>

definition hive_id_attribute :: "metadata \<Rightarrow> attribute option" where
  "hive_id_attribute metadata = find (\<lambda>a. trait_type a = ''Hive ID'') (attributes metadata)"

text \<open>
  The \<^verbatim>\<open>catch\<close> block warns and builds the fallback from the first attribute whose
  \<^verbatim>\<open>trait_type\<close> is \<^verbatim>\<open>"Hive ID"\<close>; \<^verbatim>\<open>find\<close> gives \<^verbatim>\<open>undefined\<close> when there is none, and reading
  \<^verbatim>\<open>.value\<close> of it throws out of the function.
\<close>

definition uploadToPinata :: "pinata_reply \<Rightarrow> metadata \<Rightarrow> (error + string) \<times> event list" where
  "uploadToPinata reply metadata =
     (case uploadToPinata_try reply metadata of
        (Inr ipfsUrl, evs) \<Rightarrow> (Inr ipfsUrl, evs)
      | (Inl err, evs) \<Rightarrow>
          (case hive_id_attribute metadata of
             None \<Rightarrow>
               (Inl (TypeError ''Cannot read properties of undefined (reading value)''),
                evs @ [ConsoleWarn fallback_warning])
           | Some a \<Rightarrow> (Inr (''hive:'' @ attr_value a), evs @ [ConsoleWarn fallback_warning])))"

text \<open>The provider failed: network error, malformed response, or no content hash.\<close>

fun provider_failed :: "pinata_reply \<Rightarrow> bool" where
  "provider_failed (JsonData h) = falsy h"
| "provider_failed _ = True"

section \<open>Hive record store\<close>

text \<open>
  The persisted collection is the file \<^verbatim>\<open>data/hives.json\<close>. \<open>hives_file\<close> is what reading
  and parsing it gives: \<open>None\<close> when the file is missing, is not JSON, or is not an array of
  records. \<open>file_writable\<close> tells whether \<^verbatim>\<open>fs.writeFileSync\<close> on it succeeds.

  The purchase handler does not read the file with \<^verbatim>\<open>fs\<close>: it loads it with the \<^verbatim>\<open>require\<close>
  function made by \<^verbatim>\<open>createRequire(import.meta.url)\<close>. Node's \<^verbatim>\<open>require\<close> keeps every module
  it has loaded, JSON files included, in the module cache of the process, and answers a
  later \<^verbatim>\<open>require\<close> of the same path from that cache without reading the file again.
  \<open>require_cache\<close> is the cache entry of \<^verbatim>\<open>./data/hives.json\<close>: \<open>None\<close> until the first
  successful load of the process. The file that \<^verbatim>\<open>require\<close> resolves (beside \<^verbatim>\<open>server.js\<close>)
  and the file that \<^verbatim>\<open>markHiveAsSold\<close> opens (under the working directory) are taken to be
  the same file, which is the case when the server is started from its own directory.
\<close>

record world =
  hives_file :: "hive list option"
  file_writable :: bool
  require_cache :: "hive list option"

text \<open>\<^verbatim>\<open>require('./data/hives.json')\<close>.\<close>

definition require_hives :: "world \<Rightarrow> (error + hive list) \<times> world" where
  "require_hives w =
     (case require_cache w of
        Some cached \<Rightarrow> (Inr cached, w)
      | None \<Rightarrow>
          (case hives_file w of
             None \<Rightarrow> (Inl (Error ''Cannot find module ./data/hives.json''), w)
           | Some hives \<Rightarrow> (Inr hives, w\<lparr>require_cache := Some hives\<rparr>)))"

text \<open>\<^verbatim>\<open>Array.prototype.findIndex\<close>, with \<open>None\<close> for \<^verbatim>\<open>-1\<close>.\<close>

fun findIndex :: "('a \<Rightarrow> bool) \<Rightarrow> 'a list \<Rightarrow> nat option" where
  "findIndex p [] = None"
| "findIndex p (x # xs) = (if p x then Some 0 else map_option Suc (findIndex p xs))"

text \<open>
  The \<^verbatim>\<open>try\<close> block of \<^verbatim>\<open>markHiveAsSold\<close>; \<open>now\<close> is \<^verbatim>\<open>new Date().toISOString()\<close>. The
  file is rewritten only when a record with the id is found.
\<close>

definition markHiveAsSold_try ::
  "string \<Rightarrow> string option \<Rightarrow> string \<Rightarrow> string \<Rightarrow> world \<Rightarrow> (error + unit) \<times> world" where
  "markHiveAsSold_try now hiveId buyerAccountId serialNumber w =
     (case hives_file w of
        None \<Rightarrow> (Inl (Error ''cannot read or parse data/hives.json''), w)
      | Some hives \<Rightarrow>
          (case findIndex (\<lambda>h. Some (hive_id h) = hiveId) hives of
             None \<Rightarrow> (Inr (), w)
           | Some hiveIndex \<Rightarrow>
               (let hives' = hives[hiveIndex := (hives ! hiveIndex)
                      \<lparr>hive_status := ''sold'',
                       hive_owner := Some buyerAccountId,
                       hive_serialNumber := Some serialNumber,
                       hive_soldAt := Some now\<rparr>]
                in if file_writable w then (Inr (), w\<lparr>hives_file := Some hives'\<rparr>)
                   else (Inl (Error ''cannot write data/hives.json''), w))))"

text \<open>The whole function: the \<^verbatim>\<open>catch\<close> block logs the error and falls through.\<close>

definition markHiveAsSold ::
  "string \<Rightarrow> string option \<Rightarrow> string \<Rightarrow> string \<Rightarrow> world
     \<Rightarrow> (error + unit) \<times> world \<times> event list" where
  "markHiveAsSold now hiveId buyerAccountId serialNumber w =
     (case markHiveAsSold_try now hiveId buyerAccountId serialNumber w of
        (Inr u, w') \<Rightarrow> (Inr (), w', [])
      | (Inl err, w') \<Rightarrow>
          (Inr (), w', [ConsoleError (''Failed to update hive status: '' @ message err)]))"

text \<open>
  The cases in which the \<^verbatim>\<open>try\<close> block does not rewrite the file: it cannot be read or
  parsed, it holds no record with the id, or it cannot be written.
\<close>

definition commit_fails :: "string option \<Rightarrow> world \<Rightarrow> bool" where
  "commit_fails i w =
     (case hives_file w of
        None \<Rightarrow> True
      | Some hives \<Rightarrow> findIndex (\<lambda>h. Some (hive_id h) = i) hives = None \<or> \<not> file_writable w)"


section \<open>Ledger client\<close>

text \<open>
  The ledger SDK is outside the repository. Its parsers are parameters: each either throws
  or gives the parsed identifier, kept as its \<^verbatim>\<open>toString()\<close> rendering. The process
  environment holds the operator's account and key.
\<close>

record sdk =
  TokenId_fromString :: "string \<Rightarrow> error + string"
  AccountId_fromString :: "string \<Rightarrow> error + string"
  PrivateKey_fromString :: "string \<Rightarrow> error + string"

record env =
  MY_ACCOUNT_ID :: string
  MY_PRIVATE_KEY :: string
  FRONTEND_URL :: "string option"

text \<open>
  What the network answers to the transactions of one request: \<open>Inl\<close> is the error thrown
  while freezing, signing, executing or fetching the receipt (the ledger rejects); \<open>Inr\<close> is
  what the code reads from a successful response and receipt: the new collection's id and
  the transaction id; the serial of the minted token; the transfer's transaction id and
  status.
\<close>

record ledger =
  create_reply :: "error + string \<times> string"
  mint_reply :: "error + nat"
  transfer_reply :: "error + string \<times> string"

subsection \<open>\<^verbatim>\<open>createHiveTokenCollection\<close> (nft.js)\<close>

datatype create_result =
    CreateSuccess string string string string
  | CreateFailure string

text \<open>
  \<open>supplyKey\<close> and \<open>adminKey\<close> are the two keys \<^verbatim>\<open>PrivateKey.generate()\<close> returns. The whole
  body is inside \<^verbatim>\<open>try\<close>, and the \<^verbatim>\<open>catch\<close> block returns the failure as a value.
\<close>

definition createHiveTokenCollection_try ::
  "sdk \<Rightarrow> env \<Rightarrow> string \<Rightarrow> string \<Rightarrow> ledger \<Rightarrow> (error + create_result) \<times> event list" where
  "createHiveTokenCollection_try k e supplyKey adminKey l =
     (case PrivateKey_fromString k (MY_PRIVATE_KEY e) of
        Inl err \<Rightarrow> (Inl err, [])
      | Inr operatorKey \<Rightarrow>
          (case create_reply l of
             Inl err \<Rightarrow> (Inl err, [TokenCreateExecute supplyKey adminKey])
           | Inr (tokenId, transactionId) \<Rightarrow>
               (Inr (CreateSuccess tokenId supplyKey adminKey transactionId),
                [TokenCreateExecute supplyKey adminKey])))"

definition createHiveTokenCollection ::
  "sdk \<Rightarrow> env \<Rightarrow> string \<Rightarrow> string \<Rightarrow> ledger \<Rightarrow> (error + create_result) \<times> event list" where
  "createHiveTokenCollection k e supplyKey adminKey l =
     (case createHiveTokenCollection_try k e supplyKey adminKey l of
        (Inr r, evs) \<Rightarrow> (Inr r, evs)
      | (Inl err, evs) \<Rightarrow> (Inr (CreateFailure (message err)), evs))"

subsection \<open>\<^verbatim>\<open>mintHiveNFT\<close> (nft.js)\<close>

text \<open>The hive attributes of a mint request: the rest of the body of \<^verbatim>\<open>/api/mint-nft\<close>.\<close>

record hiveMetadata =
  hm_name :: "string option"
  hm_description :: "string option"
  hm_imageURL :: "string option"
  hm_hiveId :: "string option"
  hm_location :: "string option"
  hm_farmer :: "string option"
  hm_investmentAmount :: "string option"
  hm_status :: "string option"

datatype mint_result =
    MintSuccess string string string string
  | MintFailure string

definition fullMetadata :: "hiveMetadata \<Rightarrow> metadata" where
  "fullMetadata hm =
     \<lparr>md_name = or_default (hm_name hm) ''Ecolive Hive'',
      md_description = or_default (hm_description hm) ''Beehive investment NFT'',
      md_image = or_default (hm_imageURL hm) ''https://via.placeholder.com/400x300?text=Beehive'',
      attributes =
        [\<lparr>trait_type = ''Hive ID'', attr_value = or_default (hm_hiveId hm) ''HIVE-001''\<rparr>,
         \<lparr>trait_type = ''Location'', attr_value = or_default (hm_location hm) ''Nairobi, Kenya''\<rparr>,
         \<lparr>trait_type = ''Farmer'', attr_value = or_default (hm_farmer hm) ''John Doe''\<rparr>,
         \<lparr>trait_type = ''Investment'',
          attr_value = ''$'' @ or_default (hm_investmentAmount hm) ''5000''\<rparr>,
         \<lparr>trait_type = ''Status'', attr_value = ''$'' @ or_default (hm_status hm) ''active''\<rparr>]\<rparr>"

definition explorerUrl :: "string \<Rightarrow> nat \<Rightarrow> string" where
  "explorerUrl tokenId serial =
     ''https://hashscan.io/testnet/token/'' @ tokenId @ ''/'' @ string_of_nat serial"

text \<open>The \<^verbatim>\<open>try\<close> block: publish, check the size of the pointer, then mint.\<close>

definition mintHiveNFT_try ::
  "pinata_reply \<Rightarrow> ledger \<Rightarrow> string \<Rightarrow> string \<Rightarrow> hiveMetadata
     \<Rightarrow> (error + mint_result) \<times> event list" where
  "mintHiveNFT_try pin l supplyKey tokenId hm =
     (case uploadToPinata pin (fullMetadata hm) of
        (Inl err, evs) \<Rightarrow> (Inl err, evs)
      | (Inr ipfsURL, evs) \<Rightarrow>
          (if length ipfsURL > 100
           then (Inl (Error (''Metadata too long: '' @ string_of_nat (length ipfsURL) @ '' bytes'')),
                 evs)
           else
             (case mint_reply l of
                Inl err \<Rightarrow> (Inl err, evs @ [TokenMintExecute tokenId supplyKey ipfsURL])
              | Inr serial \<Rightarrow>
                  (Inr (MintSuccess (string_of_nat serial) tokenId ipfsURL
                          (explorerUrl tokenId serial)),
                   evs @ [TokenMintExecute tokenId supplyKey ipfsURL]))))"

text \<open>
  The key and the token id are objects or absent; an absent one throws before the \<^verbatim>\<open>try\<close>
  block. Inside it, every error becomes a returned \<^verbatim>\<open>{success: false, error}\<close>.
\<close>

definition mintHiveNFT ::
  "pinata_reply \<Rightarrow> ledger \<Rightarrow> string option \<Rightarrow> string option \<Rightarrow> hiveMetadata
     \<Rightarrow> (error + mint_result) \<times> event list" where
  "mintHiveNFT pin l supplyKey tokenId hm =
     (case (tokenId, supplyKey) of
        (Some tok, Some key) \<Rightarrow>
          (case mintHiveNFT_try pin l key tok hm of
             (Inr r, evs) \<Rightarrow> (Inr r, evs)
           | (Inl err, evs) \<Rightarrow> (Inr (MintFailure (message err)), evs))
      | _ \<Rightarrow>
          (Inl (Error ''Token not created yet. Run createHiveTokenCollection() first.''), []))"

section \<open>Workflow endpoints (server.js)\<close>

text \<open>
  A response is the HTTP status and the JSON body. \<open>ErrorBody m\<close> is
  \<^verbatim>\<open>{success: false, error: m}\<close>; the other bodies carry \<^verbatim>\<open>success: true\<close> and the fields of
  the endpoint. \<^verbatim>\<open>res.json\<close> without \<^verbatim>\<open>res.status\<close> answers with status 200.
\<close>

datatype body =
    ErrorBody string
  | CreateTokenBody string string string string
  | MintBody string string string string
  | BuyBody string string string string string

record response =
  resp_status :: nat
  resp_body :: body

text \<open>\<^verbatim>\<open>err.message || d\<close>.\<close>

definition message_or :: "error \<Rightarrow> string \<Rightarrow> string" where
  "message_or err d = (if message err = [] then d else message err)"

subsection \<open>\<^verbatim>\<open>POST /api/create-token\<close>\<close>

definition create_token ::
  "sdk \<Rightarrow> env \<Rightarrow> string \<Rightarrow> string \<Rightarrow> ledger \<Rightarrow> response \<times> event list" where
  "create_token k e supplyKey adminKey l =
     (case createHiveTokenCollection k e supplyKey adminKey l of
        (Inr (CreateSuccess tokenId sk ak transactionId), evs) \<Rightarrow>
          (\<lparr>resp_status = 200, resp_body = CreateTokenBody tokenId sk ak transactionId\<rparr>, evs)
      | (Inr (CreateFailure m), evs) \<Rightarrow> (\<lparr>resp_status = 200, resp_body = ErrorBody m\<rparr>, evs)
      | (Inl err, evs) \<Rightarrow> (\<lparr>resp_status = 500, resp_body = ErrorBody (message err)\<rparr>, evs))"

subsection \<open>\<^verbatim>\<open>POST /api/mint-nft\<close>\<close>

record mint_request =
  mint_tokenId :: "string option"
  mint_supplyKey :: "string option"
  mint_hive :: hiveMetadata

definition mint_nft :: "sdk \<Rightarrow> pinata_reply \<Rightarrow> ledger \<Rightarrow> mint_request \<Rightarrow> response \<times> event list" where
  "mint_nft k pin l req =
     (if falsy (mint_tokenId req) \<or> falsy (mint_supplyKey req)
      then (\<lparr>resp_status = 400, resp_body = ErrorBody ''Missing tokenId or supplyKey''\<rparr>, [])
      else
        (case TokenId_fromString k (or_default (mint_tokenId req) []) of
           Inl err \<Rightarrow>
             (\<lparr>resp_status = 500, resp_body = ErrorBody (message_or err ''Mint failed'')\<rparr>, [])
         | Inr tokenId \<Rightarrow>
             (case PrivateKey_fromString k (or_default (mint_supplyKey req) []) of
                Inl err \<Rightarrow>
                  (\<lparr>resp_status = 500, resp_body = ErrorBody (message_or err ''Mint failed'')\<rparr>, [])
              | Inr supplyKey \<Rightarrow>
                  (case mintHiveNFT pin l (Some supplyKey) (Some tokenId) (mint_hive req) of
                     (Inr (MintSuccess serialNumber tok ipfsURL url), evs) \<Rightarrow>
                       (\<lparr>resp_status = 200, resp_body = MintBody serialNumber tok ipfsURL url\<rparr>,
                        evs)
                   | (Inr (MintFailure m), evs) \<Rightarrow>
                       (\<lparr>resp_status = 200, resp_body = ErrorBody m\<rparr>, evs)
                   | (Inl err, evs) \<Rightarrow>
                       (\<lparr>resp_status = 500,
                         resp_body = ErrorBody (message_or err ''Mint failed'')\<rparr>, evs)))))"

subsection \<open>\<^verbatim>\<open>POST /api/buy-hive\<close>\<close>

record buy_request =
  hiveId :: "string option"
  investorAccountId :: "string option"
  tokenId :: "string option"
  supplyKey :: "string option"

record parsed_ids =
  p_tokenId :: string
  p_supplyKey :: string
  p_buyerAccountId :: string
  p_treasuryAccountId :: string
  p_treasuryKey :: string

text \<open>The five \<^verbatim>\<open>fromString\<close> calls that follow the check for missing fields, in their order.\<close>

definition parse_ids :: "sdk \<Rightarrow> env \<Rightarrow> string \<Rightarrow> string \<Rightarrow> string \<Rightarrow> error + parsed_ids" where
  "parse_ids k e tokenIdStr supplyKeyStr investor =
     (case TokenId_fromString k tokenIdStr of
        Inl err \<Rightarrow> Inl err
      | Inr tok \<Rightarrow>
     (case PrivateKey_fromString k supplyKeyStr of
        Inl err \<Rightarrow> Inl err
      | Inr key \<Rightarrow>
     (case AccountId_fromString k investor of
        Inl err \<Rightarrow> Inl err
      | Inr buyer \<Rightarrow>
     (case AccountId_fromString k (MY_ACCOUNT_ID e) of
        Inl err \<Rightarrow> Inl err
      | Inr treasury \<Rightarrow>
     (case PrivateKey_fromString k (MY_PRIVATE_KEY e) of
        Inl err \<Rightarrow> Inl err
      | Inr treasuryKey \<Rightarrow>
          Inr \<lparr>p_tokenId = tok, p_supplyKey = key, p_buyerAccountId = buyer,
               p_treasuryAccountId = treasury, p_treasuryKey = treasuryKey\<rparr>)))))"

definition buy_metadata :: "hive \<Rightarrow> string \<Rightarrow> metadata" where
  "buy_metadata h investor =
     \<lparr>md_name = hive_name h,
      md_description = hive_description h,
      md_image = hive_image h,
      attributes =
        [\<lparr>trait_type = ''Hive ID'', attr_value = hive_id h\<rparr>,
         \<lparr>trait_type = ''Location'', attr_value = hive_location h\<rparr>,
         \<lparr>trait_type = ''Farmer'', attr_value = hive_farmer h\<rparr>,
         \<lparr>trait_type = ''Investment'', attr_value = string_of_nat (hive_price h) @ '' HBAR''\<rparr>,
         \<lparr>trait_type = ''Status'', attr_value = ''sold''\<rparr>,
         \<lparr>trait_type = ''Owner'', attr_value = investor\<rparr>]\<rparr>"

text \<open>
  The steps after validation, for the record found: publish, check the size of the
  pointer, mint to the treasury, transfer to the buyer, mark the record sold, answer.
  A thrown error leaves through \<open>Inl\<close> with the world and the trace as they are then.
  The client is built from the operator's account and key, which the handler has already
  parsed at this point, so building it adds no failure of its own.
\<close>

definition purchase ::
  "string \<Rightarrow> pinata_reply \<Rightarrow> ledger \<Rightarrow> parsed_ids \<Rightarrow> buy_request \<Rightarrow> string \<Rightarrow> hive \<Rightarrow> world
     \<Rightarrow> (error + response) \<times> world \<times> event list" where
  "purchase now pin l ids req investor h w =
     (case uploadToPinata pin (buy_metadata h investor) of
        (Inl err, evs) \<Rightarrow> (Inl err, w, evs)
      | (Inr ipfsUrl, evs) \<Rightarrow>
          (if length ipfsUrl > 100 then (Inl (Error ''Metadata too big (max 100 bytes)''), w, evs)
           else
             (let evs1 = evs @ [TokenMintExecute (p_tokenId ids) (p_supplyKey ids) ipfsUrl]
              in case mint_reply l of
                   Inl err \<Rightarrow> (Inl err, w, evs1)
                 | Inr serial \<Rightarrow>
                     (let evs2 = evs1 @ [TransferExecute (p_tokenId ids) serial
                                           (p_treasuryAccountId ids) (p_buyerAccountId ids)
                                           (p_treasuryKey ids)]
                      in case transfer_reply l of
                           Inl err \<Rightarrow> (Inl err, w, evs2)
                         | Inr (transactionId, st) \<Rightarrow>
                             (let evs3 = evs2 @ [MarkHiveAsSoldCall (hiveId req) investor
                                                   (string_of_nat serial)]
                              in case markHiveAsSold now (hiveId req) investor
                                        (string_of_nat serial) w of
                                   (Inl err, w', evs4) \<Rightarrow> (Inl err, w', evs3 @ evs4)
                                 | (Inr u, w', evs4) \<Rightarrow>
                                     (Inr \<lparr>resp_status = 200,
                                           resp_body = BuyBody (string_of_nat serial)
                                             (p_tokenId ids)
                                             (explorerUrl (p_tokenId ids) serial)
                                             transactionId
                                             ''NFT minted and transferred to your wallet!''\<rparr>,
                                      w', evs3 @ evs4))))))"

text \<open>The \<^verbatim>\<open>try\<close> block of the handler: validation, lookup, then the steps above.\<close>

definition buy_hive_try ::
  "sdk \<Rightarrow> env \<Rightarrow> string \<Rightarrow> pinata_reply \<Rightarrow> ledger \<Rightarrow> buy_request \<Rightarrow> world
     \<Rightarrow> (error + response) \<times> world \<times> event list" where
  "buy_hive_try k e now pin l req w =
     (if falsy (tokenId req) \<or> falsy (supplyKey req) \<or> falsy (investorAccountId req)
      then (Inr \<lparr>resp_status = 400,
                 resp_body = ErrorBody
                   ''Missing required fields: tokenId, supplyKey, or investorAccountId''\<rparr>, w, [])
      else
        (case parse_ids k e (or_default (tokenId req) []) (or_default (supplyKey req) [])
                (or_default (investorAccountId req) []) of
           Inl err \<Rightarrow> (Inl err, w, [])
         | Inr ids \<Rightarrow>
             (case require_hives w of
                (Inl err, w1) \<Rightarrow> (Inl err, w1, [])
              | (Inr HIVES, w1) \<Rightarrow>
                  (case find (\<lambda>h. Some (hive_id h) = hiveId req) HIVES of
                     None \<Rightarrow>
                       (Inr \<lparr>resp_status = 404,
                             resp_body = ErrorBody
                               (''Hive with id '' @ (case hiveId req of None \<Rightarrow> ''undefined''
                                                     | Some i \<Rightarrow> i) @ '' not found'')\<rparr>, w1, [])
                   | Some h \<Rightarrow>
                       (if hive_status h = ''sold''
                        then (Inr \<lparr>resp_status = 400,
                                   resp_body = ErrorBody ''This hive has already been sold''\<rparr>,
                              w1, [])
                        else purchase now pin l ids req
                               (or_default (investorAccountId req) []) h w1)))))"

text \<open>The handler: the \<^verbatim>\<open>catch\<close> block turns any thrown error into a 500.\<close>

definition buy_hive ::
  "sdk \<Rightarrow> env \<Rightarrow> string \<Rightarrow> pinata_reply \<Rightarrow> ledger \<Rightarrow> buy_request \<Rightarrow> world
     \<Rightarrow> response \<times> world \<times> event list" where
  "buy_hive k e now pin l req w =
     (case buy_hive_try k e now pin l req w of
        (Inr r, w', evs) \<Rightarrow> (r, w', evs)
      | (Inl err, w', evs) \<Rightarrow>
          (\<lparr>resp_status = 500, resp_body = ErrorBody (message_or err ''Purchase failed'')\<rparr>,
           w', evs))"

subsection \<open>Cross-origin policy\<close>

definition allowedOrigins :: "env \<Rightarrow> string list" where
  "allowedOrigins e =
     [''http://localhost:5173'', ''http://localhost:3000'',
      or_default (FRONTEND_URL e) ''https://your-frontend.onrender.com'']"

text \<open>
  The \<^verbatim>\<open>origin\<close> function given to the \<^verbatim>\<open>cors\<close> middleware, called with the request's
  \<^verbatim>\<open>Origin\<close> header (\<open>None\<close> when the request has none): \<open>Inr True\<close> is
  \<^verbatim>\<open>callback(null, true)\<close>, \<open>Inl\<close> is \<^verbatim>\<open>callback(new Error(...))\<close>.
\<close>

definition cors_origin :: "env \<Rightarrow> string option \<Rightarrow> error + bool" where
  "cors_origin e origin =
     (if falsy origin then Inr True
      else if or_default origin [] \<in> set (allowedOrigins e) then Inr True
      else Inl (Error ''Not allowed by CORS''))"

text \<open>Whether a trace holds a call to the pinning provider or a ledger transaction.\<close>

fun is_outbound :: "event \<Rightarrow> bool" where
  "is_outbound (PinataFetch md) = True"
| "is_outbound (TokenCreateExecute s a) = True"
| "is_outbound (TokenMintExecute t k b) = True"
| "is_outbound (TransferExecute t n f b k) = True"
| "is_outbound _ = False"

fun is_mint :: "event \<Rightarrow> bool" where
  "is_mint (TokenMintExecute t k b) = True"
| "is_mint _ = False"

fun is_transfer :: "event \<Rightarrow> bool" where
  "is_transfer (TransferExecute t n f b k) = True"
| "is_transfer _ = False"

fun is_markSold :: "event \<Rightarrow> bool" where
  "is_markSold (MarkHiveAsSoldCall i b s) = True"
| "is_markSold _ = False"

section \<open>Concrete inputs\<close>

text \<open>
  The scenario of the specification: the record \<^verbatim>\<open>HIVE-001\<close>, available, bought by account
  \<^verbatim>\<open>0.0.1234\<close> in collection \<^verbatim>\<open>0.0.5678\<close>. \<open>demo_sdk\<close> stands in for the SDK's parsers at
  these inputs: an entity id is made of digits and two dots, a key of hexadecimal digits.
\<close>

definition entity_id_ok :: "string \<Rightarrow> bool" where
  "entity_id_ok s =
     (list_all (\<lambda>c. c \<in> set ''0123456789.'') s \<and> length (filter (\<lambda>c. c = CHR ''.'') s) = 2)"

definition key_ok :: "string \<Rightarrow> bool" where
  "key_ok s = (s \<noteq> [] \<and> list_all (\<lambda>c. c \<in> set ''0123456789abcdef'') s)"

definition demo_sdk :: sdk where
  "demo_sdk =
     \<lparr>TokenId_fromString =
        (\<lambda>s. if entity_id_ok s then Inr s else Inl (Error (''failed to parse entity id: '' @ s))),
      AccountId_fromString =
        (\<lambda>s. if entity_id_ok s then Inr s else Inl (Error (''failed to parse entity id: '' @ s))),
      PrivateKey_fromString =
        (\<lambda>s. if key_ok s then Inr s else Inl (Error ''invalid private key''))\<rparr>"

definition demo_env :: env where
  "demo_env = \<lparr>MY_ACCOUNT_ID = ''0.0.1001'', MY_PRIVATE_KEY = ''302e0201'', FRONTEND_URL = None\<rparr>"

definition demo_hive :: hive where
  "demo_hive =
     \<lparr>hive_id = ''HIVE-001'', hive_name = ''Golden Hive'',
      hive_description = ''Premium beehive in Nairobi'',
      hive_image = ''https://example.com/hive1.jpg'', hive_location = ''Nairobi, Kenya'',
      hive_farmer = ''Jane Kamau'', hive_price = 5000, hive_status = ''available'',
      hive_owner = None, hive_serialNumber = None, hive_soldAt = None\<rparr>"

definition demo_world :: world where
  "demo_world = \<lparr>hives_file = Some [demo_hive], file_writable = True, require_cache = None\<rparr>"

definition demo_request :: buy_request where
  "demo_request =
     \<lparr>hiveId = Some ''HIVE-001'', investorAccountId = Some ''0.0.1234'',
      tokenId = Some ''0.0.5678'', supplyKey = Some ''302e0202''\<rparr>"

definition demo_ledger :: ledger where
  "demo_ledger =
     \<lparr>create_reply = Inr (''0.0.5678'', ''0.0.1001@1700000000.000000001''),
      mint_reply = Inr 1,
      transfer_reply = Inr (''0.0.1001@1700000000.000000002'', ''SUCCESS'')\<rparr>"

definition demo_pin :: pinata_reply where
  "demo_pin = JsonData (Some ''QmT5NvUtoM5nWFfrQdVrFtvGfKFmG7AHE8P34isapyhCxX'')"

definition demo_now :: string where
  "demo_now = ''2025-01-01T00:00:00.000Z''"

lemmas demo_defs =
  demo_sdk_def demo_env_def demo_hive_def demo_world_def demo_request_def demo_ledger_def
  demo_pin_def demo_now_def entity_id_ok_def key_ok_def

lemmas handler_defs =
  buy_hive_def buy_hive_try_def parse_ids_def require_hives_def purchase_def uploadToPinata_def
  hive_id_attribute_def buy_metadata_def markHiveAsSold_def markHiveAsSold_try_def
  explorerUrl_def message_or_def

section \<open>Auxiliary facts\<close>

subsection \<open>Publisher\<close>

lemma find_hive_id_nonempty:
  "hive_id_attribute md = Some a \<Longrightarrow> attributes md \<noteq> []"
  by (cases "attributes md") (auto simp: hive_id_attribute_def)

lemma uploadToPinata_try_failed:
  "provider_failed reply \<Longrightarrow> \<exists>err. fst (uploadToPinata_try reply md) = Inl err"
  by (cases reply; cases "attributes md") auto

lemma uploadToPinata_try_trace:
  "attributes md \<noteq> [] \<Longrightarrow> snd (uploadToPinata_try reply md) = [PinataFetch md]"
  by (cases reply; cases "attributes md") auto

lemma uploadToPinata_failed:
  assumes "hive_id_attribute md = Some a"
    and "provider_failed reply"
  shows "uploadToPinata reply md =
           (Inr (''hive:'' @ attr_value a), [PinataFetch md, ConsoleWarn fallback_warning])"
proof -
  from assms(2) obtain err where "fst (uploadToPinata_try reply md) = Inl err"
    using uploadToPinata_try_failed by blast
  moreover have "snd (uploadToPinata_try reply md) = [PinataFetch md]"
    using assms(1) find_hive_id_nonempty uploadToPinata_try_trace by blast
  ultimately have "uploadToPinata_try reply md = (Inl err, [PinataFetch md])"
    by (metis prod.collapse)
  then show ?thesis
    using assms(1) by (simp add: uploadToPinata_def)
qed

lemma uploadToPinata_succeeded:
  assumes "attributes md \<noteq> []" and "\<not> provider_failed reply"
  shows "\<exists>h. reply = JsonData (Some h) \<and> h \<noteq> [] \<and>
           uploadToPinata reply md = (Inr (''ipfs://'' @ h), [PinataFetch md])"
  using assms
  by (cases reply; cases "attributes md") (auto simp: uploadToPinata_def elim: falsy.elims)

lemma uploadToPinata_returns:
  assumes "hive_id_attribute md = Some a"
  shows "\<exists>uri evs. uploadToPinata reply md = (Inr uri, evs) \<and> \<not> list_ex is_mint evs
     \<and> \<not> list_ex is_transfer evs \<and> \<not> list_ex is_markSold evs"
proof (cases "provider_failed reply")
  case True
  then show ?thesis using uploadToPinata_failed [OF assms] by simp
next
  case False
  then show ?thesis
    using uploadToPinata_succeeded [of md reply] find_hive_id_nonempty [OF assms] by auto
qed

lemma uploadToPinata_fetch:
  "PinataFetch md' \<in> set (snd (uploadToPinata reply md)) \<Longrightarrow> md' = md"
  by (cases reply; cases "attributes md")
     (auto simp: uploadToPinata_def split: option.splits if_splits)

lemma buy_metadata_hive_id:
  "hive_id_attribute (buy_metadata h investor) =
     Some \<lparr>trait_type = ''Hive ID'', attr_value = hive_id h\<rparr>"
  by (simp add: buy_metadata_def hive_id_attribute_def)

lemma fullMetadata_hive_id:
  "hive_id_attribute (fullMetadata hm) =
     Some \<lparr>trait_type = ''Hive ID'', attr_value = or_default (hm_hiveId hm) ''HIVE-001''\<rparr>"
  by (simp add: fullMetadata_def hive_id_attribute_def)

subsection \<open>Record store\<close>

lemma markHiveAsSold_try_file:
  "markHiveAsSold_try now i b s w = (res, w') \<Longrightarrow>
     file_writable w' = file_writable w \<and> require_cache w' = require_cache w"
  by (auto simp: markHiveAsSold_try_def Let_def split: option.splits if_splits)

lemma markHiveAsSold_Inr: "fst (markHiveAsSold now i b s w) = Inr ()"
  by (cases "markHiveAsSold_try now i b s w"; cases "fst (markHiveAsSold_try now i b s w)")
     (auto simp: markHiveAsSold_def)

lemma require_hives_file:
  "require_hives w = (res, w1) \<Longrightarrow>
     hives_file w1 = hives_file w \<and> file_writable w1 = file_writable w"
  by (auto simp: require_hives_def split: option.splits)


lemma markHiveAsSold_events:
  "ev \<in> set (snd (snd (markHiveAsSold now i b s w))) \<Longrightarrow> \<exists>m. ev = ConsoleError m"
  by (cases "markHiveAsSold_try now i b s w"; cases "fst (markHiveAsSold_try now i b s w)")
     (auto simp: markHiveAsSold_def)

lemma markHiveAsSold_no_calls:
  "\<not> list_ex is_mint (snd (snd (markHiveAsSold now i b s w)))"
  "\<not> list_ex is_transfer (snd (snd (markHiveAsSold now i b s w)))"
  "\<not> list_ex is_markSold (snd (snd (markHiveAsSold now i b s w)))"
  by (auto simp: list_ex_iff dest!: markHiveAsSold_events)

lemma markHiveAsSold_commit_fails:
  "commit_fails i w \<Longrightarrow> fst (snd (markHiveAsSold now i b s w)) = w"
  by (auto simp: commit_fails_def markHiveAsSold_def markHiveAsSold_try_def Let_def
           split: option.splits)

lemma commit_fails_cong:
  "hives_file w1 = hives_file w \<Longrightarrow> file_writable w1 = file_writable w \<Longrightarrow>
     commit_fails i w1 = commit_fails i w"
  by (simp add: commit_fails_def split: option.splits)

lemma markHiveAsSold_cache:
  "require_cache (fst (snd (markHiveAsSold now i b s w))) = require_cache w"
proof (cases "markHiveAsSold_try now i b s w")
  case (Pair res w')
  then show ?thesis
    using markHiveAsSold_try_file [OF Pair] by (cases res) (simp_all add: markHiveAsSold_def)
qed

subsection \<open>The steps of a purchase\<close>

lemma purchase_upload:
  obtains uri evs0 where "uploadToPinata pin (buy_metadata h buyer) = (Inr uri, evs0)"
    and "\<not> list_ex is_mint evs0" and "\<not> list_ex is_transfer evs0"
    and "\<not> list_ex is_markSold evs0"
  using uploadToPinata_returns [OF buy_metadata_hive_id] by blast

lemma purchase_too_big:
  assumes "uploadToPinata pin (buy_metadata h buyer) = (Inr uri, evs0)" and "length uri > 100"
  shows "purchase now pin l ids req buyer h w =
           (Inl (Error ''Metadata too big (max 100 bytes)''), w, evs0)"
  using assms by (simp add: purchase_def)

lemma purchase_mint_rejected:
  assumes "uploadToPinata pin (buy_metadata h buyer) = (Inr uri, evs0)" and "\<not> length uri > 100"
    and "mint_reply l = Inl err"
  shows "purchase now pin l ids req buyer h w =
           (Inl err, w, evs0 @ [TokenMintExecute (p_tokenId ids) (p_supplyKey ids) uri])"
  using assms by (simp add: purchase_def)

lemma purchase_transfer_rejected:
  assumes "uploadToPinata pin (buy_metadata h buyer) = (Inr uri, evs0)" and "\<not> length uri > 100"
    and "mint_reply l = Inr serial" and "transfer_reply l = Inl err"
  shows "purchase now pin l ids req buyer h w =
           (Inl err, w, evs0 @ [TokenMintExecute (p_tokenId ids) (p_supplyKey ids) uri,
              TransferExecute (p_tokenId ids) serial (p_treasuryAccountId ids)
                (p_buyerAccountId ids) (p_treasuryKey ids)])"
  using assms by (simp add: purchase_def)

lemma purchase_committed:
  assumes "uploadToPinata pin (buy_metadata h buyer) = (Inr uri, evs0)" and "\<not> length uri > 100"
    and "mint_reply l = Inr serial" and "transfer_reply l = Inr (tx, st)"
  shows "purchase now pin l ids req buyer h w =
           (Inr \<lparr>resp_status = 200,
                 resp_body = BuyBody (string_of_nat serial) (p_tokenId ids)
                   (explorerUrl (p_tokenId ids) serial) tx
                   ''NFT minted and transferred to your wallet!''\<rparr>,
            fst (snd (markHiveAsSold now (hiveId req) buyer (string_of_nat serial) w)),
            evs0 @ [TokenMintExecute (p_tokenId ids) (p_supplyKey ids) uri,
              TransferExecute (p_tokenId ids) serial (p_treasuryAccountId ids)
                (p_buyerAccountId ids) (p_treasuryKey ids),
              MarkHiveAsSoldCall (hiveId req) buyer (string_of_nat serial)]
              @ snd (snd (markHiveAsSold now (hiveId req) buyer (string_of_nat serial) w)))"
proof -
  obtain w' evs4 where m: "markHiveAsSold now (hiveId req) buyer (string_of_nat serial) w
      = (Inr (), w', evs4)"
    using markHiveAsSold_Inr [of now "hiveId req" buyer "string_of_nat serial" w]
    by (metis prod.collapse)
  show ?thesis
    using assms by (simp add: purchase_def m)
qed

lemma purchase_status:
  assumes "purchase now pin l ids req buyer h w = (Inr r, w', evs)"
  shows "resp_status r = 200"
proof -
  obtain uri evs0 where up: "uploadToPinata pin (buy_metadata h buyer) = (Inr uri, evs0)"
    by (rule purchase_upload)
  show ?thesis
  proof (cases "length uri > 100")
    case True
    then show ?thesis using assms purchase_too_big [OF up True, of now l ids req w] by simp
  next
    case small: False
    show ?thesis
    proof (cases "mint_reply l")
      case (Inl merr)
      then show ?thesis
        using assms purchase_mint_rejected [OF up small Inl, of now ids req w] by simp
    next
      case mint: (Inr serial)
      show ?thesis
      proof (cases "transfer_reply l")
        case (Inl terr)
        then show ?thesis
          using assms purchase_transfer_rejected [OF up small mint Inl, of now ids req w] by simp
      next
        case (Inr res)
        obtain tx st where "transfer_reply l = Inr (tx, st)"
          using Inr by (cases res) simp
        then show ?thesis
          using assms purchase_committed [OF up small mint, of tx st now ids req w] by auto
      qed
    qed
  qed
qed

lemma buy_hive_try_cases:
  obtains (reject) res w1 where "buy_hive_try k e now pin l req w = (res, w1, [])"
      and "hives_file w1 = hives_file w" and "file_writable w1 = file_writable w"
      and "\<And>r. res = Inr r \<Longrightarrow> resp_status r \<noteq> 200"
  | (purchase) ids h w1 where
      "buy_hive_try k e now pin l req w =
         purchase now pin l ids req (or_default (investorAccountId req) []) h w1"
      and "hives_file w1 = hives_file w" and "file_writable w1 = file_writable w"
      and "hive_status h \<noteq> ''sold''" and "Some (hive_id h) = hiveId req"
      and "require_cache w1 \<noteq> None"
      and "find (\<lambda>h. Some (hive_id h) = hiveId req) (the (require_cache w1)) = Some h"
proof (cases "falsy (tokenId req) \<or> falsy (supplyKey req) \<or> falsy (investorAccountId req)")
  case True
  then show ?thesis using reject [of _ w] by (simp add: buy_hive_try_def)
next
  case present: False
  show ?thesis
  proof (cases "parse_ids k e (or_default (tokenId req) []) (or_default (supplyKey req) [])
                (or_default (investorAccountId req) [])")
    case (Inl err)
    then show ?thesis using present reject [of _ w] by (simp add: buy_hive_try_def)
  next
    case (Inr ids)
    obtain loaded w1 where rq: "require_hives w = (loaded, w1)"
      by (cases "require_hives w")
    note same = require_hives_file [OF rq]
    show ?thesis
    proof (cases loaded)
      case (Inl err)
      then show ?thesis
        using present Inr rq same reject [of _ w1] by (simp add: buy_hive_try_def)
    next
      case loaded: (Inr HIVES)
      have cache: "require_cache w1 = Some HIVES"
        using rq loaded by (auto simp: require_hives_def split: option.splits)
      show ?thesis
      proof (cases "find (\<lambda>h. Some (hive_id h) = hiveId req) HIVES")
        case None
        then show ?thesis
          using present Inr rq loaded same reject [of _ w1] by (simp add: buy_hive_try_def)
      next
        case (Some h)
        then have idh: "Some (hive_id h) = hiveId req"
          by (auto simp: find_Some_iff)
        show ?thesis
        proof (cases "hive_status h = ''sold''")
          case True
          then show ?thesis
            using present Inr rq loaded Some same reject [of _ w1]
            by (simp add: buy_hive_try_def)
        next
          case False
          then show ?thesis
            using present Inr rq loaded Some same idh cache purchase [of ids h w1]
            by (simp add: buy_hive_try_def)
        qed
      qed
    qed
  qed
qed

lemma buy_hive_of_try_Inl:
  "buy_hive_try k e now pin l req w = (Inl err, w', evs) \<Longrightarrow>
     buy_hive k e now pin l req w =
       (\<lparr>resp_status = 500, resp_body = ErrorBody (message_or err ''Purchase failed'')\<rparr>, w', evs)"
  by (simp add: buy_hive_def)

lemma buy_hive_of_try_Inr:
  "buy_hive_try k e now pin l req w = (Inr r, w', evs) \<Longrightarrow>
     buy_hive k e now pin l req w = (r, w', evs)"
  by (simp add: buy_hive_def)

lemma buy_hive_of_try:
  "buy_hive_try k e now pin l req w = (res, w', evs) \<Longrightarrow>
     snd (buy_hive k e now pin l req w) = (w', evs)"
  by (cases res) (simp_all add: buy_hive_def)

lemma buy_hive_cases:
  obtains (reject) r w1 where "buy_hive k e now pin l req w = (r, w1, [])"
      and "hives_file w1 = hives_file w" and "file_writable w1 = file_writable w"
      and "resp_status r \<noteq> 200"
  | (too_big) w1 evs0 where
      "buy_hive k e now pin l req w =
         (\<lparr>resp_status = 500, resp_body = ErrorBody ''Metadata too big (max 100 bytes)''\<rparr>,
          w1, evs0)"
      and "hives_file w1 = hives_file w"
      and "\<not> list_ex is_mint evs0" and "\<not> list_ex is_transfer evs0"
      and "\<not> list_ex is_markSold evs0"
  | (mint_rejected) err w1 evs0 tok key uri where "mint_reply l = Inl err"
      and "buy_hive k e now pin l req w =
         (\<lparr>resp_status = 500, resp_body = ErrorBody (message_or err ''Purchase failed'')\<rparr>,
          w1, evs0 @ [TokenMintExecute tok key uri])"
      and "hives_file w1 = hives_file w"
      and "\<not> list_ex is_mint evs0" and "\<not> list_ex is_transfer evs0"
      and "\<not> list_ex is_markSold evs0"
  | (transfer_rejected) err serial w1 evs0 tok key uri treasury buyer tkey where
      "mint_reply l = Inr serial" and "transfer_reply l = Inl err"
      and "buy_hive k e now pin l req w =
         (\<lparr>resp_status = 500, resp_body = ErrorBody (message_or err ''Purchase failed'')\<rparr>,
          w1, evs0 @ [TokenMintExecute tok key uri,
                      TransferExecute tok serial treasury buyer tkey])"
      and "hives_file w1 = hives_file w"
      and "\<not> list_ex is_mint evs0" and "\<not> list_ex is_transfer evs0"
      and "\<not> list_ex is_markSold evs0"
  | (committed) serial tx st w1 evs0 tok key uri treasury buyer tkey investor h where
      "mint_reply l = Inr serial" and "transfer_reply l = Inr (tx, st)"
      and "buy_hive k e now pin l req w =
         (\<lparr>resp_status = 200,
            resp_body = BuyBody (string_of_nat serial) tok (explorerUrl tok serial) tx
                          ''NFT minted and transferred to your wallet!''\<rparr>,
          fst (snd (markHiveAsSold now (hiveId req) investor (string_of_nat serial) w1)),
          evs0 @ [TokenMintExecute tok key uri,
                  TransferExecute tok serial treasury buyer tkey,
                  MarkHiveAsSoldCall (hiveId req) investor (string_of_nat serial)]
               @ snd (snd (markHiveAsSold now (hiveId req) investor (string_of_nat serial) w1)))"
      and "hives_file w1 = hives_file w" and "file_writable w1 = file_writable w"
      and "require_cache w1 \<noteq> None"
      and "find (\<lambda>h. Some (hive_id h) = hiveId req) (the (require_cache w1)) = Some h"
      and "hive_status h \<noteq> ''sold''"
proof (cases k e now pin l req w rule: buy_hive_try_cases)
  case (reject res w1)
  show ?thesis
  proof (cases res)
    case (Inl err)
    then show ?thesis
      using reject(1,2,3) buy_hive_of_try_Inl [of k e now pin l req w err w1 "[]"] that(1)
      by simp
  next
    case (Inr r)
    then show ?thesis
      using reject buy_hive_of_try_Inr [of k e now pin l req w r w1 "[]"] that(1)
      by simp
  qed
next
  case (purchase ids h w1)
  let ?buyer = "or_default (investorAccountId req) []"
  obtain uri evs0 where up: "uploadToPinata pin (buy_metadata h ?buyer) = (Inr uri, evs0)"
    and quiet: "\<not> list_ex is_mint evs0" "\<not> list_ex is_transfer evs0"
      "\<not> list_ex is_markSold evs0"
    by (rule purchase_upload)
  show ?thesis
  proof (cases "length uri > 100")
    case True
    have "buy_hive k e now pin l req w =
         (\<lparr>resp_status = 500, resp_body = ErrorBody ''Metadata too big (max 100 bytes)''\<rparr>,
          w1, evs0)"
      using purchase(1) purchase_too_big [OF up True]
        buy_hive_of_try_Inl [of k e now pin l req w _ w1 evs0]
      by (simp add: message_or_def)
    then show ?thesis using that(2) purchase(2) quiet by blast
  next
    case small: False
    show ?thesis
    proof (cases "mint_reply l")
      case (Inl merr)
      have "buy_hive k e now pin l req w =
         (\<lparr>resp_status = 500, resp_body = ErrorBody (message_or merr ''Purchase failed'')\<rparr>,
          w1, evs0 @ [TokenMintExecute (p_tokenId ids) (p_supplyKey ids) uri])"
        using purchase(1) purchase_mint_rejected [OF up small Inl]
          buy_hive_of_try_Inl [of k e now pin l req w merr w1]
        by simp
      then show ?thesis using that(3) Inl purchase(2) quiet by blast
    next
      case mint: (Inr serial)
      show ?thesis
      proof (cases "transfer_reply l")
        case (Inl terr)
        have "buy_hive k e now pin l req w =
         (\<lparr>resp_status = 500, resp_body = ErrorBody (message_or terr ''Purchase failed'')\<rparr>,
          w1, evs0 @ [TokenMintExecute (p_tokenId ids) (p_supplyKey ids) uri,
              TransferExecute (p_tokenId ids) serial (p_treasuryAccountId ids)
                (p_buyerAccountId ids) (p_treasuryKey ids)])"
          using purchase(1) purchase_transfer_rejected [OF up small mint Inl]
            buy_hive_of_try_Inl [of k e now pin l req w terr w1]
          by simp
        then show ?thesis using that(4) mint Inl purchase(2) quiet by blast
      next
        case (Inr res)
        obtain tx st where res: "transfer_reply l = Inr (tx, st)"
          using Inr by (cases res) simp
        have "buy_hive k e now pin l req w =
          (\<lparr>resp_status = 200,
            resp_body = BuyBody (string_of_nat serial) (p_tokenId ids)
                          (explorerUrl (p_tokenId ids) serial) tx
                          ''NFT minted and transferred to your wallet!''\<rparr>,
           fst (snd (markHiveAsSold now (hiveId req) ?buyer (string_of_nat serial) w1)),
           evs0 @ [TokenMintExecute (p_tokenId ids) (p_supplyKey ids) uri,
              TransferExecute (p_tokenId ids) serial (p_treasuryAccountId ids)
                (p_buyerAccountId ids) (p_treasuryKey ids),
              MarkHiveAsSoldCall (hiveId req) ?buyer (string_of_nat serial)]
              @ snd (snd (markHiveAsSold now (hiveId req) ?buyer (string_of_nat serial) w1)))"
          using purchase(1) purchase_committed [OF up small mint res]
            buy_hive_of_try_Inr [of k e now pin l req w]
          by simp
        then show ?thesis
          using that(5) mint res purchase(2,3,4,6,7) by blast
      qed
    qed
  qed
qed

lemma mintHiveNFT_rejected:
  assumes "mintHiveNFT pin l (Some key) (Some tok) hm = (res, evs)"
    and "list_ex is_mint evs" and "mint_reply l = Inl err"
  shows "res = Inr (MintFailure (message err))"
proof -
  obtain uri evs0 where up: "uploadToPinata pin (fullMetadata hm) = (Inr uri, evs0)"
    and quiet: "\<not> list_ex is_mint evs0"
    using uploadToPinata_returns [OF fullMetadata_hive_id] by blast
  show ?thesis
    using assms up quiet
    by (auto simp: mintHiveNFT_def mintHiveNFT_try_def split: if_splits)
qed

text \<open>
  Once a purchase has succeeded, the cached collection still holds the record as it was
  found, not sold; and \<^verbatim>\<open>markHiveAsSold\<close> does not touch the cache. So no later request
  for the same hive id in the same process is answered with the 400 of a sold record.
\<close>

lemma stale_cache_admits_second_purchase:
  assumes "buy_hive k e now pin l req w = (r, w1, evs)" and "resp_status r = 200"
    and "hiveId req' = hiveId req"
  shows "fst (buy_hive k' e' now' pin' l' req' w1) \<noteq>
           \<lparr>resp_status = 400, resp_body = ErrorBody ''This hive has already been sold''\<rparr>"
proof -
  obtain h where cache: "require_cache w1 \<noteq> None"
    and found: "find (\<lambda>h. Some (hive_id h) = hiveId req) (the (require_cache w1)) = Some h"
    and avail: "hive_status h \<noteq> ''sold''"
  proof (cases k e now pin l req w rule: buy_hive_cases)
    case reject
    then show ?thesis using assms by auto
  next
    case too_big
    then show ?thesis using assms by auto
  next
    case mint_rejected
    then show ?thesis using assms by auto
  next
    case transfer_rejected
    then show ?thesis using assms by auto
  next
    case (committed serial tx st w0 evs0 tok key uri treasury buyer tkey investor h)
    have "require_cache w1 = require_cache w0"
      using committed(3) assms(1)
        markHiveAsSold_cache [of now "hiveId req" investor "string_of_nat serial" w0]
      by simp
    then show ?thesis using that [of h] committed(6,7,8) by simp
  qed
  have rq: "require_hives w1 = (Inr (the (require_cache w1)), w1)"
    using cache by (auto simp: require_hives_def split: option.splits)
  have found': "find (\<lambda>h. Some (hive_id h) = hiveId req') (the (require_cache w1)) = Some h"
    using found assms(3) by simp
  show ?thesis
  proof (cases "falsy (tokenId req') \<or> falsy (supplyKey req') \<or> falsy (investorAccountId req')")
    case True
    then show ?thesis by (simp add: buy_hive_def buy_hive_try_def)
  next
    case present: False
    show ?thesis
    proof (cases "parse_ids k' e' (or_default (tokenId req') []) (or_default (supplyKey req') [])
                (or_default (investorAccountId req') [])")
      case (Inl err)
      then show ?thesis using present by (simp add: buy_hive_def buy_hive_try_def)
    next
      case (Inr ids)
      let ?p = "purchase now' pin' l' ids req' (or_default (investorAccountId req') []) h w1"
      have attempt: "buy_hive_try k' e' now' pin' l' req' w1 = ?p"
        using present Inr rq found' avail by (simp add: buy_hive_try_def)
      obtain res w2 evs2 where p: "?p = (res, w2, evs2)"
        by (cases ?p)
      show ?thesis
      proof (cases res)
        case (Inl err)
        then show ?thesis using attempt p by (simp add: buy_hive_def)
      next
        case (Inr r2)
        then have "resp_status r2 = 200"
          using p purchase_status by blast
        then show ?thesis using attempt p Inr by (auto simp: buy_hive_def)
      qed
    qed
  qed
qed

section \<open>Properties of the metadata publisher\<close>

text \<open>
  Claim C3. \<^verbatim>\<open>uploadToPinata\<close> is claimed never to raise, for every metadata document. The
  fallback reads \<^verbatim>\<open>.value\<close> of the result of \<^verbatim>\<open>find\<close>, so a document without an attribute
  whose \<^verbatim>\<open>trait_type\<close> is \<^verbatim>\<open>"Hive ID"\<close> makes the \<^verbatim>\<open>catch\<close> block itself throw. For every
  document that has such an attribute the function returns a URI whatever the provider
  does, and when the provider fails (network error, malformed response, missing content
  hash) the URI is \<^verbatim>\<open>hive:\<close> followed by that attribute's value, after a warning was logged.
\<close>

theorem uploadToPinata_fallback:
  assumes "hive_id_attribute md = Some a"
  shows "(\<exists>uri evs. uploadToPinata reply md = (Inr uri, evs)) \<and>
         (provider_failed reply \<longrightarrow>
            (\<exists>evs. uploadToPinata reply md = (Inr (''hive:'' @ attr_value a), evs)
                   \<and> ConsoleWarn fallback_warning \<in> set evs))"
proof
  show "\<exists>uri evs. uploadToPinata reply md = (Inr uri, evs)"
    using uploadToPinata_returns [OF assms] by blast
  show "provider_failed reply \<longrightarrow>
          (\<exists>evs. uploadToPinata reply md = (Inr (''hive:'' @ attr_value a), evs)
                 \<and> ConsoleWarn fallback_warning \<in> set evs)"
    using uploadToPinata_failed [OF assms] by simp
qed

theorem uploadToPinata_fallback_witness:
  "hive_id_attribute (buy_metadata demo_hive ''0.0.1234'') =
     Some \<lparr>trait_type = ''Hive ID'', attr_value = ''HIVE-001''\<rparr> \<and>
   provider_failed (FetchRejects (Error ''fetch failed'')) \<and>
   fst (uploadToPinata (FetchRejects (Error ''fetch failed''))
          (buy_metadata demo_hive ''0.0.1234'')) = Inr ''hive:HIVE-001''"
proof -
  have h: "hive_id_attribute (buy_metadata demo_hive ''0.0.1234'') =
     Some \<lparr>trait_type = ''Hive ID'', attr_value = ''HIVE-001''\<rparr>"
    by (simp add: hive_id_attribute_def buy_metadata_def demo_hive_def)
  show ?thesis
    using h uploadToPinata_fallback [OF h, of "FetchRejects (Error ''fetch failed'')"]
    by auto
qed

text \<open>
  The claim as stated fails at a document whose only attribute is a location, with the
  provider unreachable: the call ends in a \<^verbatim>\<open>TypeError\<close>.
\<close>

theorem uploadToPinata_raises_without_hive_id:
  "provider_failed (FetchRejects (Error ''fetch failed'')) \<and>
   fst (uploadToPinata (FetchRejects (Error ''fetch failed''))
          \<lparr>md_name = ''Golden Hive'', md_description = ''Premium beehive in Nairobi'',
           md_image = ''https://example.com/hive1.jpg'',
           attributes = [\<lparr>trait_type = ''Location'', attr_value = ''Nairobi, Kenya''\<rparr>]\<rparr>)
     = Inl (TypeError ''Cannot read properties of undefined (reading value)'')"
  by (simp add: uploadToPinata_def hive_id_attribute_def)

text \<open>
  Claim C7. The fallback is deterministic: two documents whose \<^verbatim>\<open>"Hive ID"\<close> attributes
  carry the same value, both published while the provider fails, get the same URI.
\<close>

theorem fallback_deterministic:
  assumes "hive_id_attribute d1 = Some a1"
    and "hive_id_attribute d2 = Some a2"
    and "attr_value a1 = attr_value a2"
    and "provider_failed r1" and "provider_failed r2"
  shows "fst (uploadToPinata r1 d1) = fst (uploadToPinata r2 d2) \<and>
         fst (uploadToPinata r1 d1) = Inr (''hive:'' @ attr_value a1)"
  using uploadToPinata_failed [OF assms(1,4)] uploadToPinata_failed [OF assms(2,5)] assms(3)
  by simp

theorem fallback_deterministic_witness:
  "hive_id_attribute (buy_metadata demo_hive ''0.0.1234'') =
     Some \<lparr>trait_type = ''Hive ID'', attr_value = ''HIVE-001''\<rparr> \<and>
   hive_id_attribute (buy_metadata demo_hive ''0.0.9999'') =
     Some \<lparr>trait_type = ''Hive ID'', attr_value = ''HIVE-001''\<rparr> \<and>
   provider_failed (FetchRejects (Error ''fetch failed'')) \<and> provider_failed JsonNull \<and>
   fst (uploadToPinata (FetchRejects (Error ''fetch failed''))
          (buy_metadata demo_hive ''0.0.1234'')) =
   fst (uploadToPinata JsonNull (buy_metadata demo_hive ''0.0.9999''))"
proof -
  have h1: "hive_id_attribute (buy_metadata demo_hive ''0.0.1234'') =
     Some \<lparr>trait_type = ''Hive ID'', attr_value = ''HIVE-001''\<rparr>"
    by (simp add: hive_id_attribute_def buy_metadata_def demo_hive_def)
  have h2: "hive_id_attribute (buy_metadata demo_hive ''0.0.9999'') =
     Some \<lparr>trait_type = ''Hive ID'', attr_value = ''HIVE-001''\<rparr>"
    by (simp add: hive_id_attribute_def buy_metadata_def demo_hive_def)
  have f1: "provider_failed (FetchRejects (Error ''fetch failed''))" by simp
  have f2: "provider_failed JsonNull" by simp
  show ?thesis
    using h1 h2 f1 f2 fallback_deterministic [OF h1 h2 _ f1 f2] by simp
qed

section \<open>The size limit of the metadata pointer\<close>

text \<open>
  Claim C5. A metadata URI of more than 100 bytes is rejected locally, before any mint
  transaction is submitted, in \<^verbatim>\<open>mintHiveNFT\<close> and in the purchase handler. In
  \<^verbatim>\<open>mintHiveNFT\<close> the error is returned as the failure result
  \<^verbatim>\<open>{success: false, error: "Metadata too long: N bytes"}\<close> and the trace holds no mint. In
  the purchase handler, when the URI published for the document of the request is longer
  than 100 bytes, the answer is 500 with \<^verbatim>\<open>Metadata too big (max 100 bytes)\<close>, the trace
  holds neither a mint nor a transfer, and the record file is unchanged.
\<close>

theorem metadata_too_large:
  "(fst (uploadToPinata pin (fullMetadata hm)) = Inr uri \<and> length uri > 100 \<longrightarrow>
      (\<exists>evs. mintHiveNFT pin l (Some key) (Some tok) hm =
                (Inr (MintFailure (''Metadata too long: '' @ string_of_nat (length uri)
                                     @ '' bytes'')), evs)
              \<and> \<not> list_ex is_mint evs)) \<and>
   (buy_hive k e now pin l req w = (r, w', evs') \<and> PinataFetch md \<in> set evs' \<and>
    fst (uploadToPinata pin md) = Inr uri' \<and> length uri' > 100 \<longrightarrow>
      r = \<lparr>resp_status = 500, resp_body = ErrorBody ''Metadata too big (max 100 bytes)''\<rparr> \<and>
      \<not> list_ex is_mint evs' \<and> \<not> list_ex is_transfer evs' \<and>
      hives_file w' = hives_file w)"
proof (intro conjI impI)
  assume a: "fst (uploadToPinata pin (fullMetadata hm)) = Inr uri \<and> length uri > 100"
  obtain uri0 evs0 where up: "uploadToPinata pin (fullMetadata hm) = (Inr uri0, evs0)"
    and quiet: "\<not> list_ex is_mint evs0"
    using uploadToPinata_returns [OF fullMetadata_hive_id] by blast
  with a have "uri0 = uri" by simp
  with a up quiet
  show "\<exists>evs. mintHiveNFT pin l (Some key) (Some tok) hm =
                (Inr (MintFailure (''Metadata too long: '' @ string_of_nat (length uri)
                                     @ '' bytes'')), evs)
              \<and> \<not> list_ex is_mint evs"
    by (simp add: mintHiveNFT_def mintHiveNFT_try_def)
next
  assume a: "buy_hive k e now pin l req w = (r, w', evs') \<and> PinataFetch md \<in> set evs' \<and>
    fst (uploadToPinata pin md) = Inr uri' \<and> length uri' > 100"
  have "r = \<lparr>resp_status = 500, resp_body = ErrorBody ''Metadata too big (max 100 bytes)''\<rparr> \<and>
      \<not> list_ex is_mint evs' \<and> \<not> list_ex is_transfer evs' \<and>
      hives_file w' = hives_file w"
  proof (cases k e now pin l req w rule: buy_hive_try_cases)
    case (reject res w1)
    then show ?thesis
      using a buy_hive_of_try [OF reject(1)] by auto
  next
    case (purchase ids h w1)
    let ?md = "buy_metadata h (or_default (investorAccountId req) [])"
    obtain uri evs0 where up: "uploadToPinata pin ?md = (Inr uri, evs0)"
      and quiet: "\<not> list_ex is_mint evs0" "\<not> list_ex is_transfer evs0"
        "\<not> list_ex is_markSold evs0"
      by (rule purchase_upload)
    have fetch0: "PinataFetch md \<in> set evs0 \<Longrightarrow> md = ?md"
      using uploadToPinata_fetch [of md pin ?md] up by simp
    have big: "md = ?md \<Longrightarrow> length uri > 100"
      using a up by auto
    show ?thesis
    proof (cases "length uri > 100")
      case True
      then show ?thesis
        using purchase(1,2) quiet a purchase_too_big [OF up True]
          buy_hive_of_try_Inl [of k e now pin l req w _ w1 evs0]
        by (auto simp: message_or_def)
    next
      case small: False
      have evs_split: "\<exists>rest. evs' = evs0 @ rest \<and> (\<forall>md'. PinataFetch md' \<notin> set rest)"
      proof (cases "mint_reply l")
        case (Inl merr)
        then show ?thesis
          using purchase(1) a purchase_mint_rejected [OF up small Inl]
            buy_hive_of_try_Inl [of k e now pin l req w merr w1]
          by auto
      next
        case mint: (Inr serial)
        show ?thesis
        proof (cases "transfer_reply l")
          case (Inl terr)
          then show ?thesis
            using purchase(1) a purchase_transfer_rejected [OF up small mint Inl]
              buy_hive_of_try_Inl [of k e now pin l req w terr w1]
            by auto
        next
          case (Inr res)
          obtain tx st where "res = (tx, st)" by (cases res)
          with Inr show ?thesis
            using purchase(1) a purchase_committed [OF up small mint, of tx st]
              buy_hive_of_try_Inr [of k e now pin l req w _ _ _]
            by (auto dest!: markHiveAsSold_events)
        qed
      qed
      then have "PinataFetch md \<in> set evs0" using a by auto
      then have False using fetch0 big small by simp
      then show ?thesis ..
    qed
  qed
  then show "r = \<lparr>resp_status = 500, resp_body = ErrorBody ''Metadata too big (max 100 bytes)''\<rparr>"
    and "\<not> list_ex is_mint evs'" and "\<not> list_ex is_transfer evs'"
    and "hives_file w' = hives_file w"
    by simp_all
qed

theorem metadata_too_large_witness:
  "fst (uploadToPinata (FetchRejects (Error ''fetch failed''))
          (fullMetadata \<lparr>hm_name = None, hm_description = None, hm_imageURL = None,
             hm_hiveId = Some (replicate 96 (CHR ''9'')), hm_location = None, hm_farmer = None,
             hm_investmentAmount = None, hm_status = None\<rparr>))
     = Inr (''hive:'' @ replicate 96 (CHR ''9'')) \<and>
   length (''hive:'' @ replicate 96 (CHR ''9'')) > 100 \<and>
   fst (mintHiveNFT (FetchRejects (Error ''fetch failed'')) demo_ledger
          (Some ''302e0202'') (Some ''0.0.5678'')
          \<lparr>hm_name = None, hm_description = None, hm_imageURL = None,
           hm_hiveId = Some (replicate 96 (CHR ''9'')), hm_location = None, hm_farmer = None,
           hm_investmentAmount = None, hm_status = None\<rparr>)
     = Inr (MintFailure (''Metadata too long: ''
              @ string_of_nat (length (''hive:'' @ replicate 96 (CHR ''9''))) @ '' bytes'')) \<and>
   PinataFetch (buy_metadata (demo_hive\<lparr>hive_id := replicate 96 (CHR ''9'')\<rparr>) ''0.0.1234'')
     \<in> set (snd (snd (buy_hive demo_sdk demo_env demo_now (FetchRejects (Error ''fetch failed''))
                demo_ledger (demo_request\<lparr>hiveId := Some (replicate 96 (CHR ''9''))\<rparr>)
                (demo_world\<lparr>hives_file :=
                   Some [demo_hive\<lparr>hive_id := replicate 96 (CHR ''9'')\<rparr>]\<rparr>)))) \<and>
   fst (uploadToPinata (FetchRejects (Error ''fetch failed''))
          (buy_metadata (demo_hive\<lparr>hive_id := replicate 96 (CHR ''9'')\<rparr>) ''0.0.1234''))
     = Inr (''hive:'' @ replicate 96 (CHR ''9'')) \<and>
   fst (buy_hive demo_sdk demo_env demo_now (FetchRejects (Error ''fetch failed''))
          demo_ledger (demo_request\<lparr>hiveId := Some (replicate 96 (CHR ''9''))\<rparr>)
          (demo_world\<lparr>hives_file := Some [demo_hive\<lparr>hive_id := replicate 96 (CHR ''9'')\<rparr>]\<rparr>))
     = \<lparr>resp_status = 500, resp_body = ErrorBody ''Metadata too big (max 100 bytes)''\<rparr>"
proof -
  let ?pin = "FetchRejects (Error ''fetch failed'')"
  let ?uri = "''hive:'' @ replicate 96 (CHR ''9'')"
  let ?hm = "\<lparr>hm_name = None, hm_description = None, hm_imageURL = None,
           hm_hiveId = Some (replicate 96 (CHR ''9'')), hm_location = None, hm_farmer = None,
           hm_investmentAmount = None, hm_status = None\<rparr>"
  let ?md = "buy_metadata (demo_hive\<lparr>hive_id := replicate 96 (CHR ''9'')\<rparr>) ''0.0.1234''"
  let ?B = "buy_hive demo_sdk demo_env demo_now ?pin demo_ledger
              (demo_request\<lparr>hiveId := Some (replicate 96 (CHR ''9''))\<rparr>)
              (demo_world\<lparr>hives_file := Some [demo_hive\<lparr>hive_id := replicate 96 (CHR ''9'')\<rparr>]\<rparr>)"
  have ne: "replicate 96 (CHR ''9'') \<noteq> []" by simp
  have u1: "fst (uploadToPinata ?pin (fullMetadata ?hm)) = Inr ?uri"
    using ne by (simp add: uploadToPinata_def hive_id_attribute_def fullMetadata_def)
  have len: "length ?uri > 100" by simp
  have u2: "fst (uploadToPinata ?pin ?md) = Inr ?uri"
    by (simp add: uploadToPinata_def hive_id_attribute_def buy_metadata_def)
  have tr: "snd (snd ?B) = [PinataFetch ?md, ConsoleWarn fallback_warning]"
    by (simp add: demo_defs handler_defs)
  have fetched: "PinataFetch ?md \<in> set (snd (snd ?B))"
    by (simp only: tr) simp
  have B: "?B = (fst ?B, fst (snd ?B), snd (snd ?B))" by simp
  note inst = metadata_too_large [of ?pin ?hm ?uri demo_ledger "''302e0202''" "''0.0.5678''"
      demo_sdk demo_env demo_now "demo_request\<lparr>hiveId := Some (replicate 96 (CHR ''9''))\<rparr>"
      "demo_world\<lparr>hives_file := Some [demo_hive\<lparr>hive_id := replicate 96 (CHR ''9'')\<rparr>]\<rparr>"
      "fst ?B" "fst (snd ?B)" "snd (snd ?B)" ?md ?uri]
  have m: "fst (mintHiveNFT ?pin demo_ledger (Some ''302e0202'') (Some ''0.0.5678'') ?hm)
     = Inr (MintFailure (''Metadata too long: '' @ string_of_nat (length ?uri) @ '' bytes''))"
    using inst u1 len by auto
  have b: "fst ?B = \<lparr>resp_status = 500,
                      resp_body = ErrorBody ''Metadata too big (max 100 bytes)''\<rparr>"
    using inst B fetched u2 len by blast
  show ?thesis
    using u1 len m fetched u2 b by blast
qed

section \<open>Partial failures of the purchase workflow\<close>

text \<open>
  Claim C6. When the ledger rejects the mint of a purchase, the handler answers 500, no
  transfer is submitted, \<^verbatim>\<open>markHiveAsSold\<close> is not called and the record file is as before
  the request, so the record stays available.
\<close>

theorem buy_hive_mint_failure:
  assumes "mint_reply l = Inl err"
    and "buy_hive k e now pin l req w = (r, w', evs)"
  shows "\<not> list_ex is_transfer evs \<and> \<not> list_ex is_markSold evs \<and>
         hives_file w' = hives_file w \<and>
         (list_ex is_mint evs \<longrightarrow>
            r = \<lparr>resp_status = 500,
                 resp_body = ErrorBody (message_or err ''Purchase failed'')\<rparr>)"
proof (cases k e now pin l req w rule: buy_hive_try_cases)
  case (reject res w1)
  then show ?thesis
    using assms(2) buy_hive_of_try [OF reject(1)] by auto
next
  case (purchase ids h w1)
  obtain uri evs0 where up:
      "uploadToPinata pin (buy_metadata h (or_default (investorAccountId req) [])) = (Inr uri, evs0)"
    and quiet: "\<not> list_ex is_mint evs0" "\<not> list_ex is_transfer evs0"
      "\<not> list_ex is_markSold evs0"
    by (rule purchase_upload)
  show ?thesis
  proof (cases "length uri > 100")
    case True
    then show ?thesis
      using purchase(1,2) quiet assms(2) purchase_too_big [OF up True]
        buy_hive_of_try_Inl [of k e now pin l req w _ w1 evs0]
      by auto
  next
    case False
    then show ?thesis
      using purchase(1,2) quiet assms purchase_mint_rejected [OF up False assms(1)]
        buy_hive_of_try_Inl [of k e now pin l req w err w1]
      by auto
  qed
qed

theorem buy_hive_mint_failure_witness:
  "mint_reply (demo_ledger\<lparr>mint_reply := Inl (Error ''INSUFFICIENT_PAYER_BALANCE'')\<rparr>)
     = Inl (Error ''INSUFFICIENT_PAYER_BALANCE'') \<and>
   list_ex is_mint (snd (snd (buy_hive demo_sdk demo_env demo_now demo_pin
     (demo_ledger\<lparr>mint_reply := Inl (Error ''INSUFFICIENT_PAYER_BALANCE'')\<rparr>)
     demo_request demo_world))) \<and>
   fst (buy_hive demo_sdk demo_env demo_now demo_pin
     (demo_ledger\<lparr>mint_reply := Inl (Error ''INSUFFICIENT_PAYER_BALANCE'')\<rparr>)
     demo_request demo_world)
     = \<lparr>resp_status = 500, resp_body = ErrorBody ''INSUFFICIENT_PAYER_BALANCE''\<rparr> \<and>
   \<not> list_ex is_transfer (snd (snd (buy_hive demo_sdk demo_env demo_now demo_pin
     (demo_ledger\<lparr>mint_reply := Inl (Error ''INSUFFICIENT_PAYER_BALANCE'')\<rparr>)
     demo_request demo_world))) \<and>
   hives_file (fst (snd (buy_hive demo_sdk demo_env demo_now demo_pin
     (demo_ledger\<lparr>mint_reply := Inl (Error ''INSUFFICIENT_PAYER_BALANCE'')\<rparr>)
     demo_request demo_world))) = Some [demo_hive]"
proof -
  let ?E = "Error ''INSUFFICIENT_PAYER_BALANCE''"
  let ?L = "demo_ledger\<lparr>mint_reply := Inl ?E\<rparr>"
  let ?B = "buy_hive demo_sdk demo_env demo_now demo_pin ?L demo_request demo_world"
  have rej: "mint_reply ?L = Inl ?E" by simp
  have tr: "snd (snd ?B) =
      [PinataFetch (buy_metadata demo_hive ''0.0.1234''),
       TokenMintExecute ''0.0.5678'' ''302e0202''
         ''ipfs://QmT5NvUtoM5nWFfrQdVrFtvGfKFmG7AHE8P34isapyhCxX'']"
    by (simp add: demo_defs handler_defs)
  have minted: "list_ex is_mint (snd (snd ?B))"
    by (simp only: tr) simp
  have B: "?B = (fst ?B, fst (snd ?B), snd (snd ?B))" by simp
  note inst = buy_hive_mint_failure [OF rej B]
  have msg: "message_or ?E ''Purchase failed'' = ''INSUFFICIENT_PAYER_BALANCE''"
    by (simp add: message_or_def)
  have stored: "hives_file demo_world = Some [demo_hive]"
    by (simp add: demo_world_def)
  show ?thesis
    using inst rej minted msg stored by auto
qed

text \<open>
  Claim C4. When the mint of a purchase succeeds and the ledger rejects the transfer, the
  handler answers 500. The trace ends with the mint followed by the rejected transfer:
  nothing is submitted afterwards, so the mint is not undone; \<^verbatim>\<open>markHiveAsSold\<close> is not
  called and the record file is as before the request.
\<close>

theorem buy_hive_transfer_failure:
  assumes "transfer_reply l = Inl err"
    and "buy_hive k e now pin l req w = (r, w', evs)"
    and "list_ex is_transfer evs"
  shows "r = \<lparr>resp_status = 500, resp_body = ErrorBody (message_or err ''Purchase failed'')\<rparr> \<and>
         (\<exists>evs0 tok key uri serial treasury buyer tkey.
            mint_reply l = Inr serial \<and>
            evs = evs0 @ [TokenMintExecute tok key uri,
                          TransferExecute tok serial treasury buyer tkey]) \<and>
         \<not> list_ex is_markSold evs \<and>
         hives_file w' = hives_file w"
proof (cases k e now pin l req w rule: buy_hive_try_cases)
  case (reject res w1)
  then show ?thesis
    using assms(2,3) buy_hive_of_try [OF reject(1)] by auto
next
  case (purchase ids h w1)
  obtain uri evs0 where up:
      "uploadToPinata pin (buy_metadata h (or_default (investorAccountId req) [])) = (Inr uri, evs0)"
    and quiet: "\<not> list_ex is_mint evs0" "\<not> list_ex is_transfer evs0"
      "\<not> list_ex is_markSold evs0"
    by (rule purchase_upload)
  show ?thesis
  proof (cases "length uri > 100")
    case True
    then show ?thesis
      using purchase(1,2) quiet assms(2,3) purchase_too_big [OF up True]
        buy_hive_of_try_Inl [of k e now pin l req w _ w1 evs0]
      by auto
  next
    case small: False
    show ?thesis
    proof (cases "mint_reply l")
      case (Inl merr)
      then show ?thesis
        using purchase(1,2) quiet assms(2,3) purchase_mint_rejected [OF up small Inl]
          buy_hive_of_try_Inl [of k e now pin l req w merr w1]
        by auto
    next
      case (Inr serial)
      then show ?thesis
        using purchase(1,2) quiet assms purchase_transfer_rejected [OF up small Inr assms(1)]
          buy_hive_of_try_Inl [of k e now pin l req w err w1]
        by auto
    qed
  qed
qed

theorem buy_hive_transfer_failure_witness:
  "transfer_reply (demo_ledger\<lparr>transfer_reply := Inl (Error ''INVALID_SIGNATURE'')\<rparr>)
     = Inl (Error ''INVALID_SIGNATURE'') \<and>
   list_ex is_transfer (snd (snd (buy_hive demo_sdk demo_env demo_now demo_pin
     (demo_ledger\<lparr>transfer_reply := Inl (Error ''INVALID_SIGNATURE'')\<rparr>)
     demo_request demo_world))) \<and>
   fst (buy_hive demo_sdk demo_env demo_now demo_pin
     (demo_ledger\<lparr>transfer_reply := Inl (Error ''INVALID_SIGNATURE'')\<rparr>)
     demo_request demo_world)
     = \<lparr>resp_status = 500, resp_body = ErrorBody ''INVALID_SIGNATURE''\<rparr> \<and>
   \<not> list_ex is_markSold (snd (snd (buy_hive demo_sdk demo_env demo_now demo_pin
     (demo_ledger\<lparr>transfer_reply := Inl (Error ''INVALID_SIGNATURE'')\<rparr>)
     demo_request demo_world))) \<and>
   hives_file (fst (snd (buy_hive demo_sdk demo_env demo_now demo_pin
     (demo_ledger\<lparr>transfer_reply := Inl (Error ''INVALID_SIGNATURE'')\<rparr>)
     demo_request demo_world))) = Some [demo_hive]"
proof -
  let ?E = "Error ''INVALID_SIGNATURE''"
  let ?L = "demo_ledger\<lparr>transfer_reply := Inl ?E\<rparr>"
  let ?B = "buy_hive demo_sdk demo_env demo_now demo_pin ?L demo_request demo_world"
  have rej: "transfer_reply ?L = Inl ?E" by simp
  have tr: "snd (snd ?B) =
      [PinataFetch (buy_metadata demo_hive ''0.0.1234''),
       TokenMintExecute ''0.0.5678'' ''302e0202''
         ''ipfs://QmT5NvUtoM5nWFfrQdVrFtvGfKFmG7AHE8P34isapyhCxX'',
       TransferExecute ''0.0.5678'' 1 ''0.0.1001'' ''0.0.1234'' ''302e0201'']"
    by (simp add: demo_defs handler_defs)
  have sent: "list_ex is_transfer (snd (snd ?B))"
    by (simp only: tr) simp
  have B: "?B = (fst ?B, fst (snd ?B), snd (snd ?B))" by simp
  note inst = buy_hive_transfer_failure [OF rej B sent]
  have msg: "message_or ?E ''Purchase failed'' = ''INVALID_SIGNATURE''"
    by (simp add: message_or_def)
  have stored: "hives_file demo_world = Some [demo_hive]"
    by (simp add: demo_world_def)
  show ?thesis
    using inst rej sent msg stored by auto
qed

text \<open>
  Claim C10. \<^verbatim>\<open>markHiveAsSold\<close> never throws. When the file cannot be read or parsed, holds
  no record with the id, or cannot be written, the call returns with the world as it was.
  A purchase whose mint and transfer are accepted calls it and answers 200 with
  \<^verbatim>\<open>success: true\<close> all the same, with the record file unchanged in those cases.
\<close>

theorem markHiveAsSold_never_throws:
  "fst (markHiveAsSold now i b s w) = Inr () \<and>
   (commit_fails i w \<longrightarrow> fst (snd (markHiveAsSold now i b s w)) = w) \<and>
   (mint_reply l = Inr serial \<and> transfer_reply l = Inr (tx, st) \<and>
    buy_hive k e now pin l req w = (r, w', evs) \<and> list_ex is_transfer evs \<longrightarrow>
      (\<exists>tok. r = \<lparr>resp_status = 200,
                   resp_body = BuyBody (string_of_nat serial) tok (explorerUrl tok serial) tx
                                 ''NFT minted and transferred to your wallet!''\<rparr>) \<and>
      list_ex is_markSold evs \<and>
      (commit_fails (hiveId req) w \<longrightarrow> hives_file w' = hives_file w))"
proof (intro conjI impI)
  show "fst (markHiveAsSold now i b s w) = Inr ()"
    by (cases "markHiveAsSold_try now i b s w"; cases "fst (markHiveAsSold_try now i b s w)")
       (auto simp: markHiveAsSold_def)
  show "commit_fails i w \<Longrightarrow> fst (snd (markHiveAsSold now i b s w)) = w"
    by (rule markHiveAsSold_commit_fails)
next
  assume a: "mint_reply l = Inr serial \<and> transfer_reply l = Inr (tx, st) \<and>
    buy_hive k e now pin l req w = (r, w', evs) \<and> list_ex is_transfer evs"
  have "(\<exists>tok. r = \<lparr>resp_status = 200,
                   resp_body = BuyBody (string_of_nat serial) tok (explorerUrl tok serial) tx
                                 ''NFT minted and transferred to your wallet!''\<rparr>) \<and>
      list_ex is_markSold evs \<and>
      (commit_fails (hiveId req) w \<longrightarrow> hives_file w' = hives_file w)"
  proof (cases k e now pin l req w rule: buy_hive_cases)
    case reject
    then show ?thesis using a by auto
  next
    case too_big
    then show ?thesis using a by auto
  next
    case mint_rejected
    then show ?thesis using a by auto
  next
    case transfer_rejected
    then show ?thesis using a by auto
  next
    case (committed serial' tx' st' w1 evs0 tok key uri treasury buyer tkey investor)
    have "commit_fails (hiveId req) w \<Longrightarrow> hives_file w' = hives_file w"
      using committed(3,4,5) a commit_fails_cong [OF committed(4,5), of "hiveId req"]
        markHiveAsSold_commit_fails [of "hiveId req" w1 now investor "string_of_nat serial'"]
      by auto
    then show ?thesis using committed(1,2,3) a by auto
  qed
  then show "\<exists>tok. r = \<lparr>resp_status = 200,
                   resp_body = BuyBody (string_of_nat serial) tok (explorerUrl tok serial) tx
                                 ''NFT minted and transferred to your wallet!''\<rparr>"
    and "list_ex is_markSold evs"
    and "commit_fails (hiveId req) w \<Longrightarrow> hives_file w' = hives_file w"
    by simp_all
qed

theorem markHiveAsSold_never_throws_witness:
  "commit_fails (hiveId demo_request) (demo_world\<lparr>file_writable := False\<rparr>) \<and>
   fst (snd (markHiveAsSold demo_now (hiveId demo_request) ''0.0.1234'' ''1''
               (demo_world\<lparr>file_writable := False\<rparr>)))
     = demo_world\<lparr>file_writable := False\<rparr> \<and>
   mint_reply demo_ledger = Inr 1 \<and>
   transfer_reply demo_ledger = Inr (''0.0.1001@1700000000.000000002'', ''SUCCESS'') \<and>
   list_ex is_transfer (snd (snd (buy_hive demo_sdk demo_env demo_now demo_pin demo_ledger
     demo_request (demo_world\<lparr>file_writable := False\<rparr>)))) \<and>
   resp_status (fst (buy_hive demo_sdk demo_env demo_now demo_pin demo_ledger
     demo_request (demo_world\<lparr>file_writable := False\<rparr>))) = 200 \<and>
   hives_file (fst (snd (buy_hive demo_sdk demo_env demo_now demo_pin demo_ledger
     demo_request (demo_world\<lparr>file_writable := False\<rparr>)))) = Some [demo_hive]"
proof -
  let ?W = "demo_world\<lparr>file_writable := False\<rparr>"
  let ?B = "buy_hive demo_sdk demo_env demo_now demo_pin demo_ledger demo_request ?W"
  have cf: "commit_fails (hiveId demo_request) ?W"
    by (simp add: commit_fails_def demo_world_def)
  have m: "mint_reply demo_ledger = Inr 1" by (simp add: demo_ledger_def)
  have t: "transfer_reply demo_ledger = Inr (''0.0.1001@1700000000.000000002'', ''SUCCESS'')"
    by (simp add: demo_ledger_def)
  have tr: "list_ex is_transfer (snd (snd ?B))"
    by (simp add: demo_defs handler_defs)
  have B: "?B = (fst ?B, fst (snd ?B), snd (snd ?B))" by simp
  note inst = markHiveAsSold_never_throws [of demo_now "hiveId demo_request" "''0.0.1234''"
      "''1''" ?W demo_ledger 1 "''0.0.1001@1700000000.000000002''" "''SUCCESS''"
      demo_sdk demo_env demo_pin demo_request "fst ?B" "fst (snd ?B)" "snd (snd ?B)"]
  have stored: "hives_file ?W = Some [demo_hive]"
    by (simp add: demo_world_def)
  have "resp_status (fst ?B) = 200"
    using inst m t B tr by fastforce
  moreover have "hives_file (fst (snd ?B)) = Some [demo_hive]"
    using inst m t B tr cf stored by simp
  moreover have "fst (snd (markHiveAsSold demo_now (hiveId demo_request) ''0.0.1234'' ''1'' ?W)) = ?W"
    using inst cf by blast
  ultimately show ?thesis
    using cf m t tr by blast
qed

section \<open>Error responses\<close>

text \<open>
  Claim C2. A ledger rejection is claimed to give status 500 on the three endpoints. In
  \<^verbatim>\<open>nft.js\<close> both \<^verbatim>\<open>createHiveTokenCollection\<close> and \<^verbatim>\<open>mintHiveNFT\<close> catch the ledger's error
  and return \<^verbatim>\<open>{success: false, error}\<close> as a value, which the handlers of
  \<^verbatim>\<open>/api/create-token\<close> and \<^verbatim>\<open>/api/mint-nft\<close> send with \<^verbatim>\<open>res.json\<close>: status 200, the ledger's
  message verbatim. Only \<^verbatim>\<open>/api/buy-hive\<close> submits the transactions itself and answers 500,
  with the ledger's message verbatim when it is not empty (\<^verbatim>\<open>err.message || ...\<close>).
\<close>

theorem ledger_rejection_responses:
  "(PrivateKey_fromString k (MY_PRIVATE_KEY e) = Inr operatorKey \<and> create_reply l = Inl err \<longrightarrow>
      create_token k e sk ak l =
        (\<lparr>resp_status = 200, resp_body = ErrorBody (message err)\<rparr>, [TokenCreateExecute sk ak])) \<and>
   (mint_nft k pin l mreq = (r1, evs1) \<and> list_ex is_mint evs1 \<and> mint_reply l = Inl err \<longrightarrow>
      r1 = \<lparr>resp_status = 200, resp_body = ErrorBody (message err)\<rparr>) \<and>
   (buy_hive k e now pin l req w = (r, w', evs) \<and>
    (list_ex is_mint evs \<and> mint_reply l = Inl err \<or>
     list_ex is_transfer evs \<and> transfer_reply l = Inl err) \<longrightarrow>
      r = \<lparr>resp_status = 500, resp_body = ErrorBody (message_or err ''Purchase failed'')\<rparr>) \<and>
   (message err \<noteq> [] \<longrightarrow> message_or err ''Purchase failed'' = message err)"
proof (intro conjI impI)
  assume "PrivateKey_fromString k (MY_PRIVATE_KEY e) = Inr operatorKey \<and> create_reply l = Inl err"
  then show "create_token k e sk ak l =
        (\<lparr>resp_status = 200, resp_body = ErrorBody (message err)\<rparr>, [TokenCreateExecute sk ak])"
    by (simp add: create_token_def createHiveTokenCollection_def createHiveTokenCollection_try_def)
next
  assume a: "mint_nft k pin l mreq = (r1, evs1) \<and> list_ex is_mint evs1 \<and> mint_reply l = Inl err"
  show "r1 = \<lparr>resp_status = 200, resp_body = ErrorBody (message err)\<rparr>"
  proof (cases "falsy (mint_tokenId mreq) \<or> falsy (mint_supplyKey mreq)")
    case True
    then show ?thesis using a by (auto simp: mint_nft_def)
  next
    case present: False
    show ?thesis
    proof (cases "TokenId_fromString k (or_default (mint_tokenId mreq) [])")
      case (Inl perr)
      then show ?thesis using a present by (auto simp: mint_nft_def)
    next
      case tok: (Inr tok)
      show ?thesis
      proof (cases "PrivateKey_fromString k (or_default (mint_supplyKey mreq) [])")
        case (Inl perr)
        then show ?thesis using a present tok by (auto simp: mint_nft_def)
      next
        case key: (Inr key)
        obtain res evs where m: "mintHiveNFT pin l (Some key) (Some tok) (mint_hive mreq) = (res, evs)"
          by (cases "mintHiveNFT pin l (Some key) (Some tok) (mint_hive mreq)")
        have "evs1 = evs"
          using a present tok key m
          by (auto simp: mint_nft_def split: sum.splits mint_result.splits)
        then have "res = Inr (MintFailure (message err))"
          using mintHiveNFT_rejected [OF m] a by simp
        then show ?thesis
          using a present tok key m by (simp add: mint_nft_def)
      qed
    qed
  qed
next
  assume a: "buy_hive k e now pin l req w = (r, w', evs) \<and>
    (list_ex is_mint evs \<and> mint_reply l = Inl err \<or>
     list_ex is_transfer evs \<and> transfer_reply l = Inl err)"
  show "r = \<lparr>resp_status = 500, resp_body = ErrorBody (message_or err ''Purchase failed'')\<rparr>"
  proof (cases k e now pin l req w rule: buy_hive_cases)
    case reject
    then show ?thesis using a by auto
  next
    case too_big
    then show ?thesis using a by auto
  next
    case mint_rejected
    then show ?thesis using a by auto
  next
    case transfer_rejected
    then show ?thesis using a by auto
  next
    case committed
    then show ?thesis using a by auto
  qed
next
  assume "message err \<noteq> []"
  then show "message_or err ''Purchase failed'' = message err"
    by (simp add: message_or_def)
qed

theorem ledger_rejection_responses_witness:
  "PrivateKey_fromString demo_sdk (MY_PRIVATE_KEY demo_env) = Inr ''302e0201'' \<and>
   create_token demo_sdk demo_env ''302e0203'' ''302e0204''
       \<lparr>create_reply = Inl (Error ''INSUFFICIENT_PAYER_BALANCE''),
        mint_reply = Inl (Error ''INSUFFICIENT_PAYER_BALANCE''),
        transfer_reply = Inl (Error ''INSUFFICIENT_PAYER_BALANCE'')\<rparr>
     = (\<lparr>resp_status = 200, resp_body = ErrorBody ''INSUFFICIENT_PAYER_BALANCE''\<rparr>,
        [TokenCreateExecute ''302e0203'' ''302e0204'']) \<and>
   list_ex is_mint (snd (mint_nft demo_sdk demo_pin
       \<lparr>create_reply = Inl (Error ''INSUFFICIENT_PAYER_BALANCE''),
        mint_reply = Inl (Error ''INSUFFICIENT_PAYER_BALANCE''),
        transfer_reply = Inl (Error ''INSUFFICIENT_PAYER_BALANCE'')\<rparr>
       \<lparr>mint_tokenId = Some ''0.0.5678'', mint_supplyKey = Some ''302e0202'',
        mint_hive = \<lparr>hm_name = Some ''Golden Hive'', hm_description = None, hm_imageURL = None,
          hm_hiveId = Some ''HIVE-001'', hm_location = None, hm_farmer = None,
          hm_investmentAmount = None, hm_status = None\<rparr>\<rparr>)) \<and>
   fst (mint_nft demo_sdk demo_pin
       \<lparr>create_reply = Inl (Error ''INSUFFICIENT_PAYER_BALANCE''),
        mint_reply = Inl (Error ''INSUFFICIENT_PAYER_BALANCE''),
        transfer_reply = Inl (Error ''INSUFFICIENT_PAYER_BALANCE'')\<rparr>
       \<lparr>mint_tokenId = Some ''0.0.5678'', mint_supplyKey = Some ''302e0202'',
        mint_hive = \<lparr>hm_name = Some ''Golden Hive'', hm_description = None, hm_imageURL = None,
          hm_hiveId = Some ''HIVE-001'', hm_location = None, hm_farmer = None,
          hm_investmentAmount = None, hm_status = None\<rparr>\<rparr>)
     = \<lparr>resp_status = 200, resp_body = ErrorBody ''INSUFFICIENT_PAYER_BALANCE''\<rparr> \<and>
   list_ex is_mint (snd (snd (buy_hive demo_sdk demo_env demo_now demo_pin
       \<lparr>create_reply = Inl (Error ''INSUFFICIENT_PAYER_BALANCE''),
        mint_reply = Inl (Error ''INSUFFICIENT_PAYER_BALANCE''),
        transfer_reply = Inl (Error ''INSUFFICIENT_PAYER_BALANCE'')\<rparr>
       demo_request demo_world))) \<and>
   fst (buy_hive demo_sdk demo_env demo_now demo_pin
       \<lparr>create_reply = Inl (Error ''INSUFFICIENT_PAYER_BALANCE''),
        mint_reply = Inl (Error ''INSUFFICIENT_PAYER_BALANCE''),
        transfer_reply = Inl (Error ''INSUFFICIENT_PAYER_BALANCE'')\<rparr>
       demo_request demo_world)
     = \<lparr>resp_status = 500, resp_body = ErrorBody ''INSUFFICIENT_PAYER_BALANCE''\<rparr>"
proof -
  let ?E = "Error ''INSUFFICIENT_PAYER_BALANCE''"
  let ?L = "\<lparr>create_reply = Inl ?E, mint_reply = Inl ?E, transfer_reply = Inl ?E\<rparr>"
  let ?mreq = "\<lparr>mint_tokenId = Some ''0.0.5678'', mint_supplyKey = Some ''302e0202'',
        mint_hive = \<lparr>hm_name = Some ''Golden Hive'', hm_description = None, hm_imageURL = None,
          hm_hiveId = Some ''HIVE-001'', hm_location = None, hm_farmer = None,
          hm_investmentAmount = None, hm_status = None\<rparr>\<rparr>"
  let ?M = "mint_nft demo_sdk demo_pin ?L ?mreq"
  let ?B = "buy_hive demo_sdk demo_env demo_now demo_pin ?L demo_request demo_world"
  have key: "PrivateKey_fromString demo_sdk (MY_PRIVATE_KEY demo_env) = Inr ''302e0201''"
    by (simp add: demo_defs)
  have rej: "create_reply ?L = Inl ?E" "mint_reply ?L = Inl ?E" "transfer_reply ?L = Inl ?E"
    by simp_all
  have mtr: "list_ex is_mint (snd ?M)"
    by (simp add: demo_defs mint_nft_def mintHiveNFT_def mintHiveNFT_try_def uploadToPinata_def
          fullMetadata_def)
  have btr: "list_ex is_mint (snd (snd ?B))"
    by (simp add: demo_defs handler_defs)
  have M: "?M = (fst ?M, snd ?M)" by simp
  have B: "?B = (fst ?B, fst (snd ?B), snd (snd ?B))" by simp
  have msg: "message ?E = ''INSUFFICIENT_PAYER_BALANCE''" "message ?E \<noteq> []" by simp_all
  note inst = ledger_rejection_responses [of demo_sdk demo_env "''302e0201''" ?L ?E
      "''302e0203''" "''302e0204''" demo_pin ?mreq "fst ?M" "snd ?M" demo_now demo_request
      demo_world "fst ?B" "fst (snd ?B)" "snd (snd ?B)"]
  have c: "create_token demo_sdk demo_env ''302e0203'' ''302e0204'' ?L
     = (\<lparr>resp_status = 200, resp_body = ErrorBody ''INSUFFICIENT_PAYER_BALANCE''\<rparr>,
        [TokenCreateExecute ''302e0203'' ''302e0204''])"
    using inst key rej(1) msg(1) by simp
  have m: "fst ?M = \<lparr>resp_status = 200, resp_body = ErrorBody ''INSUFFICIENT_PAYER_BALANCE''\<rparr>"
    using inst M mtr rej(2) msg(1) by simp
  have b: "fst ?B = \<lparr>resp_status = 500, resp_body = ErrorBody ''INSUFFICIENT_PAYER_BALANCE''\<rparr>"
    using inst B btr rej(2) msg by simp
  show ?thesis
    using key c mtr m btr b by blast
qed

text \<open>
  The claim as stated fails at collection creation: with the creation transaction
  submitted and rejected by the ledger, the answer has status 200.
\<close>

theorem create_token_rejection_status_200:
  "create_reply (demo_ledger\<lparr>create_reply := Inl (Error ''INSUFFICIENT_PAYER_BALANCE'')\<rparr>)
     = Inl (Error ''INSUFFICIENT_PAYER_BALANCE'') \<and>
   create_token demo_sdk demo_env ''302e0203'' ''302e0204''
       (demo_ledger\<lparr>create_reply := Inl (Error ''INSUFFICIENT_PAYER_BALANCE'')\<rparr>)
     = (\<lparr>resp_status = 200, resp_body = ErrorBody ''INSUFFICIENT_PAYER_BALANCE''\<rparr>,
        [TokenCreateExecute ''302e0203'' ''302e0204''])"
  by (simp add: demo_defs create_token_def createHiveTokenCollection_def
        createHiveTokenCollection_try_def)

section \<open>Validation and cross-origin policy\<close>




text \<open>
  Claim C9. The cross-origin policy is claimed to reject every request whose
  \<^verbatim>\<open>Origin\<close> header is not in the allow-list. The callback tests \<^verbatim>\<open>!origin\<close>, which holds
  for an absent header and for an empty one: a request is admitted when it has no
  \<^verbatim>\<open>Origin\<close> header or an empty one, admitted when the header's value is in the allow-list,
  and rejected otherwise.
\<close>

theorem cors_policy:
  "cors_origin e None = Inr True \<and>
   cors_origin e (Some []) = Inr True \<and>
   (origin \<in> set (allowedOrigins e) \<longrightarrow> cors_origin e (Some origin) = Inr True) \<and>
   (origin \<noteq> [] \<and> origin \<notin> set (allowedOrigins e) \<longrightarrow>
      cors_origin e (Some origin) = Inl (Error ''Not allowed by CORS''))"
  by (simp add: cors_origin_def)

theorem cors_policy_witness:
  "''http://localhost:5173'' \<in> set (allowedOrigins demo_env) \<and>
   cors_origin demo_env (Some ''http://localhost:5173'') = Inr True \<and>
   ''https://evil.example'' \<noteq> [] \<and>
   ''https://evil.example'' \<notin> set (allowedOrigins demo_env) \<and>
   cors_origin demo_env (Some ''https://evil.example'') = Inl (Error ''Not allowed by CORS'') \<and>
   cors_origin demo_env None = Inr True"
proof -
  have a: "''http://localhost:5173'' \<in> set (allowedOrigins demo_env)"
    by (simp add: allowedOrigins_def)
  have b: "''https://evil.example'' \<notin> set (allowedOrigins demo_env)"
    by (simp add: allowedOrigins_def demo_env_def)
  show ?thesis
    using a b cors_policy [of demo_env "''http://localhost:5173''"]
      cors_policy [of demo_env "''https://evil.example''"]
    by simp
qed

text \<open>
  The claim as stated fails at a request with an empty \<^verbatim>\<open>Origin\<close> header: the value is not
  in the allow-list, and the request is admitted.
\<close>

theorem cors_admits_empty_origin:
  "[] \<notin> set (allowedOrigins demo_env) \<and> cors_origin demo_env (Some []) = Inr True"
  by (simp add: allowedOrigins_def demo_env_def cors_origin_def)

section \<open>Repeated purchase\<close>

text \<open>
  Claim C1. After a successful purchase, a second purchase of the same hive should be
  rejected with 400 \<^verbatim>\<open>This hive has already been sold\<close> without any publish, mint or
  transfer. \<^verbatim>\<open>markHiveAsSold\<close> rewrites the file, but the handler looks the record up in
  what \<^verbatim>\<open>require\<close> returns, and \<^verbatim>\<open>require\<close> returns the collection it cached at the first
  request, in which the record is still available. In the scenario of the specification,
  the first request answers 200 and leaves the record sold in the file; the same request
  repeated answers 200 again, after a second publish, a second mint and a second transfer.
\<close>

theorem second_purchase_not_rejected:
  "buy_hive demo_sdk demo_env demo_now demo_pin demo_ledger demo_request demo_world
     = (\<lparr>resp_status = 200,
         resp_body = BuyBody ''1'' ''0.0.5678'' ''https://hashscan.io/testnet/token/0.0.5678/1''
                       ''0.0.1001@1700000000.000000002''
                       ''NFT minted and transferred to your wallet!''\<rparr>,
        \<lparr>hives_file = Some [demo_hive\<lparr>hive_status := ''sold'', hive_owner := Some ''0.0.1234'',
                                     hive_serialNumber := Some ''1'',
                                     hive_soldAt := Some demo_now\<rparr>],
         file_writable = True,
         require_cache = Some [demo_hive]\<rparr>,
        [PinataFetch (buy_metadata demo_hive ''0.0.1234''),
         TokenMintExecute ''0.0.5678'' ''302e0202''
           ''ipfs://QmT5NvUtoM5nWFfrQdVrFtvGfKFmG7AHE8P34isapyhCxX'',
         TransferExecute ''0.0.5678'' 1 ''0.0.1001'' ''0.0.1234'' ''302e0201'',
         MarkHiveAsSoldCall (Some ''HIVE-001'') ''0.0.1234'' ''1'']) \<and>
   buy_hive demo_sdk demo_env demo_now demo_pin (demo_ledger\<lparr>mint_reply := Inr 2\<rparr>) demo_request
       \<lparr>hives_file = Some [demo_hive\<lparr>hive_status := ''sold'', hive_owner := Some ''0.0.1234'',
                                    hive_serialNumber := Some ''1'',
                                    hive_soldAt := Some demo_now\<rparr>],
        file_writable = True,
        require_cache = Some [demo_hive]\<rparr>
     = (\<lparr>resp_status = 200,
         resp_body = BuyBody ''2'' ''0.0.5678'' ''https://hashscan.io/testnet/token/0.0.5678/2''
                       ''0.0.1001@1700000000.000000002''
                       ''NFT minted and transferred to your wallet!''\<rparr>,
        \<lparr>hives_file = Some [demo_hive\<lparr>hive_status := ''sold'', hive_owner := Some ''0.0.1234'',
                                     hive_serialNumber := Some ''2'',
                                     hive_soldAt := Some demo_now\<rparr>],
         file_writable = True,
         require_cache = Some [demo_hive]\<rparr>,
        [PinataFetch (buy_metadata demo_hive ''0.0.1234''),
         TokenMintExecute ''0.0.5678'' ''302e0202''
           ''ipfs://QmT5NvUtoM5nWFfrQdVrFtvGfKFmG7AHE8P34isapyhCxX'',
         TransferExecute ''0.0.5678'' 2 ''0.0.1001'' ''0.0.1234'' ''302e0201'',
         MarkHiveAsSoldCall (Some ''HIVE-001'') ''0.0.1234'' ''2''])"
  by (simp add: demo_defs handler_defs string_of_nat.simps)

end
